theory Spec2Isabelle
  imports Main "HOL-Library.AList"
begin

section \<open>The two heaps of DuktapeContext.cpp\<close>

text \<open>
  DuktapeContext.cpp sits between two runtimes: the Duktape engine (a value stack and a
  heap of script objects, driven through the \<open>duk_*\<close> API) and the Java VM (host objects
  reached through JNI references). Both are external to the file. They are modelled here
  by one explicit state record; every API call the file makes is a function on it, and
  every function of the file is translated call by call.

  Engine heap pointers and host object identities are natural numbers.
\<close>

type_synonym addr = nat
type_synonym jobj = nat

text \<open>
  A \<open>jobject\<close> is a JNI reference: null, a local reference (the arguments and results of
  JNI calls), a global reference (\<open>NewGlobalRef\<close>) or a weak global reference
  (\<open>NewWeakGlobalRef\<close>). Global and weak references are entries of tables in the state.
\<close>

datatype jref = NullRef | LocalRef jobj | GlobalRef nat | WeakRef nat

text \<open>
  \<open>duk_push_pointer\<close> stores a raw \<open>void*\<close>. The file stores four kinds of pointer: JNI
  references, \<open>JavaMethod*\<close>, the \<open>JavaVM*\<close> and the \<open>DuktapeContext*\<close>. A fifth,
  \<open>&m_context\<close> (the address of the field that holds the engine context), is what the
  constructor registers as the user data of the fatal error handler.
\<close>

datatype pointer = PNull | PJRef jref | PJavaMethod nat | PJavaVM | PContext nat | PContextField nat

text \<open>
  The engine's value types (\<open>DUK_TYPE_*\<close>). A number's payload is never inspected by
  this file; it is kept as an integer.
\<close>

datatype jsval =
    VUndefined
  | VNull
  | VBoolean bool
  | VNumber int
  | VString string
  | VPointer pointer
  | VObject addr
  | VBuffer
  | VLightFunc

text \<open>The C functions the file registers with the engine.\<close>

datatype cfun = Fn_javaMethodHandler | Fn_javaObjectFinalizer | Fn_duktape_get | Fn_duktape_apply

text \<open>
  Kinds of engine heap object. \<open>MakeProxyFn\<close> is the script function \<open>__makeProxy\<close>
  and \<open>Proxy cfg\<close> the object it returns for the configuration object \<open>cfg\<close>;
  \<open>Enumerator\<close> is what \<open>duk_enum\<close> pushes (target and keys still to visit);
  \<open>ErrorObj\<close> is an error value left on the stack by a failed protected call.
\<close>

datatype okind =
    Plain
  | Array "jsval list"
  | CFunction cfun
  | MakeProxyFn
  | Proxy addr
  | Enumerator addr "string list"
  | ErrorObj string

record hobject =
  kind :: okind
  props :: "(string \<times> jsval) list"
  finalizer :: jsval

text \<open>
  A host object, described by what the file asks of it through JNI:
  whether \<open>m_javaValues.get\<close> knows its class (then \<open>native\<close> is the script value the
  marshaller pushes for it), the two \<open>IsAssignableFrom\<close> tests, the two long fields of a
  \<open>JavaScriptObject\<close>, and the object a \<open>JavaObject\<close> adapter wraps.
\<close>

record hostobj =
  native :: "jsval option"
  isJavaScriptObject :: bool
  isDuktapeObject :: bool
  contextField :: nat
  pointerField :: addr
  wrapped :: "jobj option"

datatype jexception =
    IllegalArgumentException string
  | DuktapeException string
  | HostException string

text \<open>
  Three ways a call can fail to return: an engine error (Duktape's \<open>duk_throw\<close>, a
  longjmp caught by the nearest protected call), the C++ \<open>std::runtime_error\<close> thrown by
  \<open>fatalErrorHandler\<close>, and undefined behaviour of the C++ code (a null or dangling
  pointer handed to an API).
\<close>

datatype error = DukError string | RuntimeError string | Crash string

record dstate =
  stack :: "jsval list"
  heap :: "addr \<Rightarrow> hobject option"
  next_addr :: addr
  global_addr :: addr
  stash_addr :: addr
  heapptr_key :: "addr \<Rightarrow> string"
  this_context :: nat
  m_javaDuktape :: jref
  jobjects :: "jobj \<Rightarrow> hostobj option"
  next_jobj :: jobj
  grefs :: "nat \<Rightarrow> jobj option"
  next_gref :: nat
  wrefs :: "nat \<Rightarrow> jobj option"
  next_wref :: nat
  collected :: "jobj \<Rightarrow> bool"
  pending :: "jexception option"
  released :: "jref list"
  next_method :: nat
  destroyed :: "nat list"
  host_get :: "jobj \<Rightarrow> string \<Rightarrow> jexception + jref"
  host_invoke :: "jobj \<Rightarrow> jref \<Rightarrow> jref list \<Rightarrow> jexception + jref"
  ndebug :: bool
  context_dump :: "jsval list \<Rightarrow> string"
  property_key :: "jsval \<Rightarrow> string"

text \<open>
  The value stack is kept top first: index \<open>-1\<close> is the head of \<open>stack\<close>.
  \<open>heapptr_key\<close> is the engine's coercion of a heap value to a property key (what
  \<open>duk_put_prop_heapptr\<close> uses); \<open>host_get\<close> and \<open>host_invoke\<close> are the host's
  implementations of \<open>DuktapeObject.get\<close> and \<open>DuktapeObject.invoke\<close>; \<open>collected\<close>
  marks host objects the host collector has reclaimed; \<open>released\<close> and \<open>destroyed\<close> log
  every \<open>DeleteGlobalRef\<close> and every \<open>delete\<close> of a \<open>JavaMethod\<close>. \<open>ndebug\<close> tells
  whether the file was compiled with \<open>NDEBUG\<close> defined (a release build);
  \<open>context_dump\<close> is the text \<open>duk_push_context_dump\<close> produces for a value stack and
  \<open>property_key\<close> the engine's coercion to a property key of a value that is not a
  string.
\<close>

type_synonym 'a res = "(error + 'a) \<times> dstate"

definition andThen :: "'a res \<Rightarrow> ('a \<Rightarrow> dstate \<Rightarrow> 'b res) \<Rightarrow> 'b res" where
  "andThen m f = (case m of (Inl e, s) \<Rightarrow> (Inl e, s) | (Inr a, s) \<Rightarrow> f a s)"

definition ok :: "'a \<Rightarrow> dstate \<Rightarrow> 'a res" where
  "ok a s = (Inr a, s)"

definition throw :: "error \<Rightarrow> dstate \<Rightarrow> 'a res" where
  "throw e s = (Inl e, s)"

subsection \<open>Property names\<close>

definition JAVA_VM_PROP_NAME :: string where
  "JAVA_VM_PROP_NAME = CHR 0xFF # CHR 0xFF # ''javaVM''"

definition JAVA_THIS_PROP_NAME :: string where
  "JAVA_THIS_PROP_NAME = CHR 0xFF # CHR 0xFF # ''java_this''"

definition JAVA_METHOD_PROP_NAME :: string where
  "JAVA_METHOD_PROP_NAME = CHR 0xFF # CHR 0xFF # ''java_method''"

definition DUKTAPE_CONTEXT_PROP_NAME :: string where
  "DUKTAPE_CONTEXT_PROP_NAME = CHR 0xFF # CHR 0xFF # ''java_duktapecontext''"

text \<open>A key whose first byte is 0xFF is hidden from script code and from enumeration.\<close>

definition is_hidden :: "string \<Rightarrow> bool" where
  "is_hidden k = (case k of [] \<Rightarrow> False | c # _ \<Rightarrow> c = CHR 0xFF)"

section \<open>The engine API\<close>

text \<open>
  Each function below is the documented stack contract of the Duktape call of the same
  name, restricted to what the file uses. Own properties only: prototype chains are not
  modelled. An invalid index or a wrong type raises an engine error where the API does.
\<close>

definition at_index :: "jsval list \<Rightarrow> int \<Rightarrow> nat option" where
  "at_index st i =
     (if i < 0 then (if - i \<le> int (length st) then Some (nat (- i - 1)) else None)
      else (if i < int (length st) then Some (length st - 1 - nat i) else None))"

definition duk_get_tval :: "int \<Rightarrow> dstate \<Rightarrow> jsval option" where
  "duk_get_tval i s = (case at_index (stack s) i of None \<Rightarrow> None | Some k \<Rightarrow> Some (stack s ! k))"

definition duk_push :: "jsval \<Rightarrow> dstate \<Rightarrow> unit res" where
  "duk_push v s = ok () (s\<lparr>stack := v # stack s\<rparr>)"

definition duk_push_null :: "dstate \<Rightarrow> unit res" where
  "duk_push_null s = duk_push VNull s"

definition duk_push_pointer :: "pointer \<Rightarrow> dstate \<Rightarrow> unit res" where
  "duk_push_pointer p s = duk_push (VPointer p) s"

definition duk_pop :: "dstate \<Rightarrow> unit res" where
  "duk_pop s = (case stack s of [] \<Rightarrow> throw (DukError ''invalid count'') s
                | _ # st \<Rightarrow> ok () (s\<lparr>stack := st\<rparr>))"

definition duk_pop_2 :: "dstate \<Rightarrow> unit res" where
  "duk_pop_2 s = (case stack s of _ # _ # st \<Rightarrow> ok () (s\<lparr>stack := st\<rparr>)
                  | _ \<Rightarrow> throw (DukError ''invalid count'') s)"

definition duk_pop_3 :: "dstate \<Rightarrow> unit res" where
  "duk_pop_3 s = (case stack s of _ # _ # _ # st \<Rightarrow> ok () (s\<lparr>stack := st\<rparr>)
                  | _ \<Rightarrow> throw (DukError ''invalid count'') s)"

text \<open>
  Allocation of an engine object. A proxy is looked through to its target by the raw
  property operations: they are used with hidden keys, which bypass proxy traps.
\<close>

definition alloc :: "hobject \<Rightarrow> dstate \<Rightarrow> addr \<times> dstate" where
  "alloc obj s = (next_addr s, s\<lparr>heap := (heap s)(next_addr s \<mapsto> obj), next_addr := Suc (next_addr s)\<rparr>)"

definition new_object :: "okind \<Rightarrow> hobject" where
  "new_object k = \<lparr>kind = k, props = [], finalizer = VUndefined\<rparr>"

definition target_of :: "dstate \<Rightarrow> addr \<Rightarrow> addr" where
  "target_of s a = (case heap s a of Some obj \<Rightarrow> (case kind obj of Proxy t \<Rightarrow> t | _ \<Rightarrow> a) | None \<Rightarrow> a)"

definition own_props :: "dstate \<Rightarrow> addr \<Rightarrow> (string \<times> jsval) list" where
  "own_props s a = (case heap s (target_of s a) of Some obj \<Rightarrow> props obj | None \<Rightarrow> [])"

definition set_props :: "addr \<Rightarrow> (string \<times> jsval) list \<Rightarrow> dstate \<Rightarrow> dstate" where
  "set_props a ps s =
     (case heap s (target_of s a) of
        Some obj \<Rightarrow> s\<lparr>heap := (heap s)(target_of s a \<mapsto> obj\<lparr>props := ps\<rparr>)\<rparr>
      | None \<Rightarrow> s)"

definition duk_get_prop_string :: "int \<Rightarrow> string \<Rightarrow> dstate \<Rightarrow> bool res" where
  "duk_get_prop_string i k s =
     (case duk_get_tval i s of
        None \<Rightarrow> throw (DukError ''invalid stack index'') s
      | Some VUndefined \<Rightarrow> throw (DukError ''cannot read property of undefined'') s
      | Some VNull \<Rightarrow> throw (DukError ''cannot read property of null'') s
      | Some (VObject a) \<Rightarrow>
          (case map_of (own_props s a) k of
             None \<Rightarrow> ok False (s\<lparr>stack := VUndefined # stack s\<rparr>)
           | Some v \<Rightarrow> ok True (s\<lparr>stack := v # stack s\<rparr>))
      | Some _ \<Rightarrow> ok False (s\<lparr>stack := VUndefined # stack s\<rparr>))"

definition duk_has_prop_string :: "int \<Rightarrow> string \<Rightarrow> dstate \<Rightarrow> bool res" where
  "duk_has_prop_string i k s =
     (case duk_get_tval i s of
        Some (VObject a) \<Rightarrow> ok (map_of (own_props s a) k \<noteq> None) s
      | Some _ \<Rightarrow> throw (DukError ''object required'') s
      | None \<Rightarrow> throw (DukError ''invalid stack index'') s)"

definition duk_del_prop_string :: "int \<Rightarrow> string \<Rightarrow> dstate \<Rightarrow> bool res" where
  "duk_del_prop_string i k s =
     (case duk_get_tval i s of
        None \<Rightarrow> throw (DukError ''invalid stack index'') s
      | Some VUndefined \<Rightarrow> throw (DukError ''cannot delete property of undefined'') s
      | Some VNull \<Rightarrow> throw (DukError ''cannot delete property of null'') s
      | Some (VObject a) \<Rightarrow> ok True (set_props a (AList.delete k (own_props s a)) s)
      | Some _ \<Rightarrow> ok True s)"

text \<open>
  \<open>duk_put_prop_string\<close> stores the value on top of the stack and pops it. The C API
  writes with strict semantics: a write that fails raises an engine error, and a write
  to a base value that is not an object fails.
\<close>

definition put_prop :: "int \<Rightarrow> string \<Rightarrow> dstate \<Rightarrow> unit res" where
  "put_prop i k s =
     (case (duk_get_tval i s, stack s) of
        (Some (VObject a), v # st) \<Rightarrow>
           ok () ((set_props a (AList.update k v (own_props s a)) s)\<lparr>stack := st\<rparr>)
      | (Some VUndefined, _ # _) \<Rightarrow> throw (DukError ''cannot write property of undefined'') s
      | (Some VNull, _ # _) \<Rightarrow> throw (DukError ''cannot write property of null'') s
      | (Some _, _ # _) \<Rightarrow> throw (DukError ''invalid base value'') s
      | _ \<Rightarrow> throw (DukError ''invalid stack index'') s)"

definition duk_put_prop_string :: "int \<Rightarrow> string \<Rightarrow> dstate \<Rightarrow> unit res" where
  "duk_put_prop_string i k s = put_prop i k s"

text \<open>
  \<open>duk_put_prop_heapptr(ctx, obj_idx, ptr)\<close>: like \<open>duk_put_prop_string\<close>, with the key
  given as a heap value; the engine coerces that value to a property key.
\<close>

definition duk_put_prop_heapptr :: "int \<Rightarrow> addr \<Rightarrow> dstate \<Rightarrow> unit res" where
  "duk_put_prop_heapptr i p s = put_prop i (heapptr_key s p) s"

definition duk_push_global_stash :: "dstate \<Rightarrow> unit res" where
  "duk_push_global_stash s = duk_push (VObject (stash_addr s)) s"

definition duk_push_global_object :: "dstate \<Rightarrow> unit res" where
  "duk_push_global_object s = duk_push (VObject (global_addr s)) s"

definition duk_get_global_string :: "string \<Rightarrow> dstate \<Rightarrow> bool res" where
  "duk_get_global_string k s =
     (case map_of (own_props s (global_addr s)) k of
        None \<Rightarrow> ok False (s\<lparr>stack := VUndefined # stack s\<rparr>)
      | Some v \<Rightarrow> ok True (s\<lparr>stack := v # stack s\<rparr>))"

text \<open>Both return the index of the pushed value, counted from the bottom of the stack.\<close>

definition duk_push_object :: "dstate \<Rightarrow> int res" where
  "duk_push_object s =
     (case alloc (new_object Plain) s of
        (a, s') \<Rightarrow> ok (int (length (stack s))) (s'\<lparr>stack := VObject a # stack s'\<rparr>))"

definition duk_push_c_function :: "cfun \<Rightarrow> dstate \<Rightarrow> int res" where
  "duk_push_c_function f s =
     (case alloc (new_object (CFunction f)) s of
        (a, s') \<Rightarrow> ok (int (length (stack s))) (s'\<lparr>stack := VObject a # stack s'\<rparr>))"

definition duk_require_normalize_index :: "int \<Rightarrow> dstate \<Rightarrow> int res" where
  "duk_require_normalize_index i s =
     (case at_index (stack s) i of
        None \<Rightarrow> throw (DukError ''invalid stack index'') s
      | Some k \<Rightarrow> ok (int (length (stack s) - 1 - k)) s)"

text \<open>\<open>duk_set_finalizer\<close> pops the finalizer value and attaches it to the object.\<close>

definition duk_set_finalizer :: "int \<Rightarrow> dstate \<Rightarrow> unit res" where
  "duk_set_finalizer i s =
     (case (duk_get_tval i s, stack s) of
        (Some (VObject a), v # st) \<Rightarrow>
          (case heap s a of
             Some obj \<Rightarrow> ok () (s\<lparr>heap := (heap s)(a \<mapsto> obj\<lparr>finalizer := v\<rparr>), stack := st\<rparr>)
           | None \<Rightarrow> throw (Crash ''dangling heap pointer'') s)
      | (Some _, _ # _) \<Rightarrow> throw (DukError ''object required'') s
      | _ \<Rightarrow> throw (DukError ''invalid stack index'') s)"

text \<open>
  \<open>duk_push_heapptr\<close> trusts the caller: a pointer that is not a live heap object is
  undefined behaviour.
\<close>

definition duk_push_heapptr :: "addr \<Rightarrow> dstate \<Rightarrow> unit res" where
  "duk_push_heapptr p s =
     (case heap s p of None \<Rightarrow> throw (Crash ''dangling heap pointer'') s
      | Some _ \<Rightarrow> duk_push (VObject p) s)"

definition duk_get_heapptr :: "int \<Rightarrow> dstate \<Rightarrow> addr option" where
  "duk_get_heapptr i s = (case duk_get_tval i s of Some (VObject a) \<Rightarrow> Some a | _ \<Rightarrow> None)"

definition duk_require_pointer :: "int \<Rightarrow> dstate \<Rightarrow> pointer res" where
  "duk_require_pointer i s =
     (case duk_get_tval i s of Some (VPointer p) \<Rightarrow> ok p s
      | _ \<Rightarrow> throw (DukError ''pointer required'') s)"

definition duk_get_pointer :: "int \<Rightarrow> dstate \<Rightarrow> pointer" where
  "duk_get_pointer i s = (case duk_get_tval i s of Some (VPointer p) \<Rightarrow> p | _ \<Rightarrow> PNull)"

definition duk_get_string :: "int \<Rightarrow> dstate \<Rightarrow> string option" where
  "duk_get_string i s = (case duk_get_tval i s of Some (VString x) \<Rightarrow> Some x | _ \<Rightarrow> None)"

text \<open>The type tests of \<open>popObject\<close>.\<close>

definition is_supported_scalar :: "jsval \<Rightarrow> bool" where
  "is_supported_scalar v = (case v of VBoolean _ \<Rightarrow> True | VNumber _ \<Rightarrow> True | VString _ \<Rightarrow> True | _ \<Rightarrow> False)"

definition duk_check_type_mask_scalar :: "int \<Rightarrow> dstate \<Rightarrow> bool" where
  "duk_check_type_mask_scalar i s =
     (case duk_get_tval i s of Some v \<Rightarrow> is_supported_scalar v | None \<Rightarrow> False)"

definition duk_is_array :: "int \<Rightarrow> dstate \<Rightarrow> bool" where
  "duk_is_array i s =
     (case duk_get_tval i s of
        Some (VObject a) \<Rightarrow>
          (case heap s a of Some obj \<Rightarrow> (case kind obj of Array _ \<Rightarrow> True | _ \<Rightarrow> False) | None \<Rightarrow> False)
      | _ \<Rightarrow> False)"

definition duk_is_object :: "int \<Rightarrow> dstate \<Rightarrow> bool" where
  "duk_is_object i s = (case duk_get_tval i s of Some (VObject _) \<Rightarrow> True | _ \<Rightarrow> False)"

section \<open>JNI\<close>

text \<open>
  A reference designates an object while that object is reachable through it: a global
  reference until it is deleted, a weak reference until the host collector reclaims the
  object.
\<close>

definition deref :: "dstate \<Rightarrow> jref \<Rightarrow> jobj option" where
  "deref s r =
     (case r of
        NullRef \<Rightarrow> None
      | LocalRef x \<Rightarrow> Some x
      | GlobalRef g \<Rightarrow> grefs s g
      | WeakRef w \<Rightarrow> (case wrefs s w of Some x \<Rightarrow> (if collected s x then None else Some x) | None \<Rightarrow> None))"

definition IsSameObject :: "dstate \<Rightarrow> jref \<Rightarrow> jref \<Rightarrow> bool" where
  "IsSameObject s a b = (deref s a = deref s b)"

definition NewGlobalRef :: "jref \<Rightarrow> dstate \<Rightarrow> jref res" where
  "NewGlobalRef r s =
     (case deref s r of
        None \<Rightarrow> ok NullRef s
      | Some x \<Rightarrow> ok (GlobalRef (next_gref s)) (s\<lparr>grefs := (grefs s)(next_gref s \<mapsto> x), next_gref := Suc (next_gref s)\<rparr>))"

definition DeleteGlobalRef :: "jref \<Rightarrow> dstate \<Rightarrow> unit res" where
  "DeleteGlobalRef r s =
     ok () ((case r of GlobalRef g \<Rightarrow> s\<lparr>grefs := (grefs s)(g := None)\<rparr> | _ \<Rightarrow> s)
               \<lparr>released := released s @ [r]\<rparr>)"

definition NewWeakGlobalRef :: "jref \<Rightarrow> dstate \<Rightarrow> jref res" where
  "NewWeakGlobalRef r s =
     (case deref s r of
        None \<Rightarrow> ok NullRef s
      | Some x \<Rightarrow> ok (WeakRef (next_wref s)) (s\<lparr>wrefs := (wrefs s)(next_wref s \<mapsto> x), next_wref := Suc (next_wref s)\<rparr>))"

definition DeleteWeakGlobalRef :: "jref \<Rightarrow> dstate \<Rightarrow> unit res" where
  "DeleteWeakGlobalRef r s =
     ok () ((case r of WeakRef w \<Rightarrow> s\<lparr>wrefs := (wrefs s)(w := None)\<rparr> | _ \<Rightarrow> s))"

text \<open>A new host object is live and is returned through a local reference.\<close>

definition NewObject :: "hostobj \<Rightarrow> dstate \<Rightarrow> jref res" where
  "NewObject h s =
     ok (LocalRef (next_jobj s))
        (s\<lparr>jobjects := (jobjects s)(next_jobj s \<mapsto> h), next_jobj := Suc (next_jobj s),
           collected := (collected s)(next_jobj s := False)\<rparr>)"

text \<open>
  A stashed pointer read back as a \<open>jobject\<close>. Reading a pointer of another kind as a
  \<open>jobject\<close> gives no reference at all; using it is undefined behaviour.
\<close>

definition as_jobject :: "pointer \<Rightarrow> jref option" where
  "as_jobject p = (case p of PNull \<Rightarrow> Some NullRef | PJRef r \<Rightarrow> Some r | _ \<Rightarrow> None)"

definition plain_hostobj :: hostobj where
  "plain_hostobj = \<lparr>native = None, isJavaScriptObject = False, isDuktapeObject = False,
                    contextField = 0, pointerField = 0, wrapped = None\<rparr>"

text \<open>The class of the object behind a reference; a dead reference is undefined behaviour.\<close>

definition GetObjectClass :: "jref \<Rightarrow> dstate \<Rightarrow> hostobj res" where
  "GetObjectClass r s =
     (case deref s r of
        None \<Rightarrow> throw (Crash ''JNI call on a dead reference'') s
      | Some x \<Rightarrow> (case jobjects s x of None \<Rightarrow> throw (Crash ''JNI call on a dead reference'') s
                   | Some h \<Rightarrow> ok h s))"

section \<open>Helpers of the repository defined in other files\<close>

text \<open>
  Modelled from the spec: \<open>queueIllegalArgumentException\<close> (JavaExceptions.h, not part
  of this file). It reports a failure to the host by leaving a pending
  \<open>IllegalArgumentException\<close> with the given message.
\<close>

definition queueIllegalArgumentException :: "string \<Rightarrow> dstate \<Rightarrow> unit res" where
  "queueIllegalArgumentException msg s = ok () (s\<lparr>pending := Some (IllegalArgumentException msg)\<rparr>)"

definition error_message :: "dstate \<Rightarrow> jsval \<Rightarrow> string" where
  "error_message s v =
     (case v of
        VObject a \<Rightarrow> (case heap s a of
                        Some obj \<Rightarrow> (case kind obj of ErrorObj m \<Rightarrow> m | _ \<Rightarrow> ''[object]'')
                      | None \<Rightarrow> ''[object]'')
      | VString m \<Rightarrow> m
      | _ \<Rightarrow> ''[value]'')"

text \<open>
  Modelled from the spec: \<open>queueJavaExceptionForDuktapeError\<close> (JavaExceptions.h, not
  part of this file). Section 7: a script execution error is captured and converted to a
  host-visible exception. It consumes the error value on top of the engine stack and
  leaves one pending \<open>DuktapeException\<close>.
\<close>

definition queueJavaExceptionForDuktapeError :: "dstate \<Rightarrow> unit res" where
  "queueJavaExceptionForDuktapeError s =
     (case stack s of
        [] \<Rightarrow> throw (DukError ''invalid stack index'') s
      | v # st \<Rightarrow> ok () (s\<lparr>stack := st, pending := Some (DuktapeException (error_message s v))\<rparr>))"

text \<open>
  Modelled from the spec: \<open>checkRethrowDuktapeError\<close> (JavaExceptions.h, not part of this
  file). Section 4.3: it tells the apply trap whether the host invocation completed; it
  is false exactly when the invocation left a host-side exception.
\<close>

definition checkRethrowDuktapeError :: "dstate \<Rightarrow> bool res" where
  "checkRethrowDuktapeError s = ok (pending s = None) s"

text \<open>
  Modelled from the spec: the scalar marshaller \<open>m_javaValues\<close> / \<open>m_objectType\<close>
  (JavaType.h, not part of this file), a black box. \<open>m_javaValues.get\<close> succeeds exactly
  for the registered classes and \<open>push\<close> leaves one value; \<open>pop\<close> and \<open>popArray\<close>
  consume the top of the stack and return a new host object boxing it.
\<close>

definition boxed :: "jsval \<Rightarrow> hostobj" where
  "boxed v = plain_hostobj\<lparr>native := Some v\<rparr>"

definition objectType_pop :: "dstate \<Rightarrow> jref res" where
  "objectType_pop s =
     (case stack s of
        [] \<Rightarrow> throw (DukError ''invalid stack index'') s
      | v # st \<Rightarrow> NewObject (boxed v) (s\<lparr>stack := st\<rparr>))"

definition objectType_popArray :: "dstate \<Rightarrow> jref res" where
  "objectType_popArray s =
     (case stack s of
        [] \<Rightarrow> throw (DukError ''invalid stack index'') s
      | v # st \<Rightarrow> NewObject (boxed v) (s\<lparr>stack := st\<rparr>))"

section \<open>Protected calls\<close>

text \<open>
  \<open>duk_pcall(ctx, nargs)\<close> replaces the callee and its arguments by the result, or by the
  error value when the callee raises an engine error; it returns whether the call
  succeeded. How the engine runs a callee is the parameter \<open>run\<close> (callee, this binding,
  arguments). A C++ exception is not an engine error and is not caught.
\<close>

definition duk_pcall_with ::
  "(jsval \<Rightarrow> jsval \<Rightarrow> jsval list \<Rightarrow> dstate \<Rightarrow> jsval res) \<Rightarrow> jsval \<Rightarrow> nat \<Rightarrow> dstate \<Rightarrow> bool res" where
  "duk_pcall_with run this nargs s =
     (if length (stack s) < Suc nargs then throw (DukError ''invalid call args'') s
      else
        (case run (stack s ! nargs) this (rev (take nargs (stack s))) s of
           (Inr v, s') \<Rightarrow> ok True (s'\<lparr>stack := v # drop (Suc nargs) (stack s)\<rparr>)
         | (Inl (DukError m), s') \<Rightarrow>
             (case alloc (new_object (ErrorObj m)) s' of
                (e, s'') \<Rightarrow> ok False (s''\<lparr>stack := VObject e # drop (Suc nargs) (stack s)\<rparr>))
         | (Inl e, s') \<Rightarrow> throw e s'))"

text \<open>
  Modelled from the spec: the script function \<open>__makeProxy\<close>, defined by the host side at
  start-up and not part of this file. Section 4.2: called with the configuration object,
  it yields the proxy the caller receives. The proxy is a new engine object that keeps
  the configuration object as its target.
\<close>

definition makeProxy :: "jsval list \<Rightarrow> dstate \<Rightarrow> jsval res" where
  "makeProxy args s =
     (case args of
        VObject cfg # _ \<Rightarrow> (case alloc (new_object (Proxy cfg)) s of (p, s') \<Rightarrow> ok (VObject p) s')
      | _ \<Rightarrow> throw (DukError ''proxy target must be an object'') s)"

text \<open>
  The callees \<open>pushObject\<close> can meet under the global name \<open>__makeProxy\<close>: the factory,
  or a value that is not callable (the global is missing).
\<close>

definition call_factory :: "jsval \<Rightarrow> jsval \<Rightarrow> jsval list \<Rightarrow> dstate \<Rightarrow> jsval res" where
  "call_factory callee this args s =
     (case callee of
        VObject a \<Rightarrow>
          (case heap s a of
             Some obj \<Rightarrow> (case kind obj of MakeProxyFn \<Rightarrow> makeProxy args s
                          | _ \<Rightarrow> throw (DukError ''not callable'') s)
           | None \<Rightarrow> throw (Crash ''dangling heap pointer'') s)
      | _ \<Rightarrow> throw (DukError ''not callable'') s)"

section \<open>DuktapeContext\<close>

text \<open>
  The constructor: a new engine heap holding the global object and the global stash, a
  weak reference to the host-side \<open>Duktape\<close> object, and the two pointers stashed for the
  C callbacks. The host part of the state is taken from \<open>host\<close>.
\<close>

definition DuktapeContext :: "nat \<Rightarrow> jref \<Rightarrow> dstate \<Rightarrow> dstate" where
  "DuktapeContext this javaDuktape host =
     (case NewWeakGlobalRef javaDuktape host of
        (r, h) \<Rightarrow>
          h\<lparr>stack := [],
            heap := (\<lambda>_. None)(0 \<mapsto> new_object Plain,
                      1 \<mapsto> (new_object Plain)\<lparr>props := [(JAVA_VM_PROP_NAME, VPointer PJavaVM),
                                                         (DUKTAPE_CONTEXT_PROP_NAME, VPointer (PContext this))]\<rparr>),
            next_addr := 2, global_addr := 0, stash_addr := 1,
            this_context := this,
            m_javaDuktape := (case r of Inr w \<Rightarrow> w | Inl _ \<Rightarrow> NullRef)\<rparr>)"

definition getJNIEnv :: "dstate \<Rightarrow> unit res" where
  "getJNIEnv s =
     andThen (duk_push_global_stash s) (\<lambda>_ s.
     andThen (duk_get_prop_string (-1) JAVA_VM_PROP_NAME s) (\<lambda>_ s.
     andThen (duk_require_pointer (-1) s) (\<lambda>javaVM s.
     andThen (duk_pop_2 s) (\<lambda>_ s.
       if javaVM = PJavaVM then ok () s else throw (Crash ''not a JavaVM'') s))))"

definition getDuktapeContext :: "dstate \<Rightarrow> unit res" where
  "getDuktapeContext s =
     andThen (duk_push_global_stash s) (\<lambda>_ s.
     andThen (duk_get_prop_string (-1) DUKTAPE_CONTEXT_PROP_NAME s) (\<lambda>_ s.
     andThen (duk_require_pointer (-1) s) (\<lambda>duktapeContext s.
     andThen (duk_pop_2 s) (\<lambda>_ s.
       if duktapeContext = PContext (this_context s) then ok () s
       else throw (Crash ''not this DuktapeContext'') s))))"

text \<open>\<open>pushObject(JNIEnv*, jlong)\<close>: the argument is an engine heap pointer.\<close>

definition pushObject_ptr :: "addr \<Rightarrow> dstate \<Rightarrow> unit res" where
  "pushObject_ptr object s = duk_push_heapptr object s"

text \<open>The \<open>JavaObject\<close> adapter the file constructs around a plain host object.\<close>

definition JavaObject :: "jobj option \<Rightarrow> hostobj" where
  "JavaObject x = plain_hostobj\<lparr>isDuktapeObject := True, wrapped := x\<rparr>"

text \<open>\<open>pushObject(JNIEnv*, jobject)\<close>, lines 308 to 383.\<close>

definition pushObject :: "jref \<Rightarrow> dstate \<Rightarrow> unit res" where
  "pushObject object s =
     (if object = NullRef then duk_push_null s
      else
        andThen (GetObjectClass object s) (\<lambda>clazz s.
        case native clazz of
          Some v \<Rightarrow> duk_push v s
        | None \<Rightarrow>
            andThen (GetObjectClass object s) (\<lambda>objectClass s.
            if isJavaScriptObject objectClass \<and> contextField objectClass = this_context s
            then duk_push_heapptr (pointerField objectClass) s
            else
              andThen (if \<not> isJavaScriptObject objectClass \<and> \<not> isDuktapeObject objectClass
                       then NewObject (JavaObject (deref s object)) s
                       else ok object s) (\<lambda>object s.
              andThen (duk_get_global_string ''__makeProxy'' s) (\<lambda>_ s.
              andThen (duk_push_object s) (\<lambda>idx s.
              andThen (duk_require_normalize_index idx s) (\<lambda>objIndex s.
              andThen (NewGlobalRef object s) (\<lambda>ref s.
              andThen (duk_push_pointer (PJRef ref) s) (\<lambda>_ s.
              andThen (duk_put_prop_string objIndex JAVA_THIS_PROP_NAME s) (\<lambda>_ s.
              andThen (duk_push_c_function Fn_javaObjectFinalizer s) (\<lambda>_ s.
              andThen (duk_set_finalizer objIndex s) (\<lambda>_ s.
              andThen (duk_push_c_function Fn_duktape_get s) (\<lambda>_ s.
              andThen (duk_put_prop_string objIndex ''__duktape_get'' s) (\<lambda>_ s.
              andThen (duk_push_c_function Fn_duktape_apply s) (\<lambda>_ s.
              andThen (duk_put_prop_string objIndex ''__duktape_apply'' s) (\<lambda>_ s.
              andThen (duk_pcall_with call_factory VUndefined 1 s) (\<lambda>success s.
                if \<not> success then queueJavaExceptionForDuktapeError s
                else ok () s)))))))))))))))))"

section \<open>The traps and the reverse crossing\<close>

definition duk_push_context_dump :: "dstate \<Rightarrow> unit res" where
  "duk_push_context_dump s = duk_push (VString (context_dump s (stack s))) s"

text \<open>
  \<open>fatalErrorHandler\<close>, lines 111 to 120. It never returns. Compiled with \<open>NDEBUG\<close> it
  throws \<open>std::runtime_error(msg)\<close> and ignores \<open>udata\<close>. Compiled without, it reads
  \<open>udata\<close> as a \<open>duk_context**\<close>, dereferences it, pushes a dump of that context and
  throws the message followed by the dump. That is defined only when \<open>udata\<close> is the
  \<open>&m_context\<close> the constructor registered (line 125); the state holds the engine heap
  of this Context only. For any other pointer, the null pointer and a JNI reference
  included, the dereference is undefined behaviour.
\<close>

definition fatalErrorHandler :: "pointer \<Rightarrow> string \<Rightarrow> dstate \<Rightarrow> 'a res" where
  "fatalErrorHandler udata msg s =
     (if \<not> ndebug s then
        (case udata of
           PContextField c \<Rightarrow>
             if c = this_context s then
               andThen (duk_push_context_dump s) (\<lambda>_ s.
               case duk_get_string (-1) s of
                 Some debugContext \<Rightarrow> throw (RuntimeError (msg @ '' - '' @ debugContext)) s
               | None \<Rightarrow> throw (Crash ''std::string from a null pointer'') s)
             else throw (Crash ''udata is not a duk_context** of this Context'') s
         | _ \<Rightarrow> throw (Crash ''udata is not a duk_context** of this Context'') s)
      else throw (RuntimeError msg) s)"

text \<open>
  A C string ends at its first NUL byte: what \<open>strcmp\<close> and \<open>NewStringUTF\<close> read of the
  bytes \<open>duk_get_string\<close> points to.
\<close>

definition c_str :: "string \<Rightarrow> string" where
  "c_str x = takeWhile (\<lambda>c. c \<noteq> CHR 0x00) x"

definition DUK_RET_ERROR :: int where
  "DUK_RET_ERROR = -1"


text \<open>
  \<open>CallObjectMethod\<close> on \<open>DuktapeObject.get\<close> and \<open>DuktapeObject.invoke\<close>: the host's
  method runs; when it raises, the exception is left pending and the result is null.
\<close>

definition CallObjectMethod_get :: "jref \<Rightarrow> string \<Rightarrow> dstate \<Rightarrow> jref res" where
  "CallObjectMethod_get object prop s =
     (case deref s object of
        None \<Rightarrow> throw (Crash ''JNI call on a dead reference'') s
      | Some x \<Rightarrow> (case host_get s x prop of
                     Inl e \<Rightarrow> ok NullRef (s\<lparr>pending := Some e\<rparr>)
                   | Inr r \<Rightarrow> ok r s))"

definition CallObjectMethod_invoke :: "jref \<Rightarrow> jref \<Rightarrow> jref list \<Rightarrow> dstate \<Rightarrow> jref res" where
  "CallObjectMethod_invoke object javaThis javaArgs s =
     (case deref s object of
        None \<Rightarrow> throw (Crash ''JNI call on a dead reference'') s
      | Some x \<Rightarrow> (case host_invoke s x javaThis javaArgs of
                     Inl e \<Rightarrow> ok NullRef (s\<lparr>pending := Some e\<rparr>)
                   | Inr r \<Rightarrow> ok r s))"

text \<open>
  \<open>__duktape_get\<close>, lines 222 to 263. The engine calls it with three arguments; the
  frame is, top first, the receiver, the property name and the configuration object.
  The result is the C return code.
\<close>

definition duktape_get :: "dstate \<Rightarrow> int res" where
  "duktape_get s =
     andThen (duk_pop s) (\<lambda>_ s.
     (let prop = duk_get_string (-1) s in
     andThen (duk_pop s) (\<lambda>_ s.
     andThen (duk_get_prop_string (-1) JAVA_THIS_PROP_NAME s) (\<lambda>_ s.
     andThen (duk_require_pointer (-1) s) (\<lambda>p s.
     andThen (duk_pop s) (\<lambda>_ s.
       case as_jobject p of
         None \<Rightarrow> throw (Crash ''not a jobject'') s
       | Some object \<Rightarrow>
           if object = NullRef then fatalErrorHandler p ''DuktapeObject is null'' s
           else
             (case prop of
                None \<Rightarrow> throw (Crash ''strcmp on a null string'') s
              | Some prop \<Rightarrow>
                  if c_str prop = ''__java_this''
                  then andThen (duk_push_pointer (PJRef object) s) (\<lambda>_ s. ok 1 s)
                  else
                    andThen (getJNIEnv s) (\<lambda>_ s.
                    andThen (GetObjectClass object s) (\<lambda>objectClass s.
                    if \<not> isDuktapeObject objectClass
                    then fatalErrorHandler p ''Object is not DuktapeObject'' s
                    else
                      andThen (CallObjectMethod_get object (c_str prop) s) (\<lambda>push s.
                      andThen (getDuktapeContext s) (\<lambda>_ s.
                      andThen (pushObject push s) (\<lambda>_ s. ok 1 s))))))))))))"

text \<open>
  A call of a C function by the engine: the function runs in a frame of its own that
  holds the arguments; return code 1 hands back the top of that frame, 0 hands back
  undefined, a negative code raises an engine error.
\<close>

definition call_frame :: "(dstate \<Rightarrow> int res) \<Rightarrow> jsval list \<Rightarrow> dstate \<Rightarrow> jsval res" where
  "call_frame body args s =
     (case body (s\<lparr>stack := rev args\<rparr>) of
        (Inl e, s') \<Rightarrow> throw e (s'\<lparr>stack := stack s\<rparr>)
      | (Inr rc, s') \<Rightarrow>
          if rc = 0 then ok VUndefined (s'\<lparr>stack := stack s\<rparr>)
          else if rc = 1 then
            (case stack s' of
               v # _ \<Rightarrow> ok v (s'\<lparr>stack := stack s\<rparr>)
             | [] \<Rightarrow> throw (DukError ''invalid stack index'') (s'\<lparr>stack := stack s\<rparr>))
          else if rc < 0 then throw (DukError ''error thrown by return code'') (s'\<lparr>stack := stack s\<rparr>)
          else throw (DukError ''invalid return code'') (s'\<lparr>stack := stack s\<rparr>))"

text \<open>
  Modelled from the spec: how a proxy made by \<open>__makeProxy\<close> answers property queries
  with a key visible to script code (the handler is script code, not part of this
  file). Section 4.3: a read goes to the get trap of the configuration object, called
  with the configuration object, the name and the receiver. The reserved identity field
  \<open>__java_this\<close> is reported present, so that the short circuit of the get trap is what
  \<open>popObject\<close> reads (section 8, identity round trip); other names are looked up in the
  configuration object.
\<close>

definition proxy_has :: "addr \<Rightarrow> string \<Rightarrow> dstate \<Rightarrow> bool" where
  "proxy_has cfg k s = (k = ''__java_this'' \<or> map_of (own_props s cfg) k \<noteq> None)"

definition proxy_get :: "addr \<Rightarrow> addr \<Rightarrow> string \<Rightarrow> dstate \<Rightarrow> jsval res" where
  "proxy_get p cfg k s =
     (case map_of (own_props s cfg) ''__duktape_get'' of
        Some (VObject f) \<Rightarrow>
          (case heap s f of
             Some obj \<Rightarrow>
               (case kind obj of
                  CFunction Fn_duktape_get \<Rightarrow> call_frame duktape_get [VObject cfg, VString k, VObject p] s
                | _ \<Rightarrow> throw (DukError ''not callable'') s)
           | None \<Rightarrow> throw (Crash ''dangling heap pointer'') s)
      | _ \<Rightarrow> throw (DukError ''not callable'') s)"

text \<open>
  \<open>duk_has_prop_string\<close> and \<open>duk_get_prop_string\<close> as \<open>popObject\<close> calls them: the
  object may be a proxy and the key is visible to its traps.
\<close>

definition proxy_target :: "dstate \<Rightarrow> addr \<Rightarrow> addr option" where
  "proxy_target s a =
     (case heap s a of Some obj \<Rightarrow> (case kind obj of Proxy cfg \<Rightarrow> Some cfg | _ \<Rightarrow> None) | None \<Rightarrow> None)"

definition duk_has_prop_string_trap :: "int \<Rightarrow> string \<Rightarrow> dstate \<Rightarrow> bool res" where
  "duk_has_prop_string_trap i k s =
     (case duk_get_tval i s of
        Some (VObject a) \<Rightarrow>
          (case proxy_target s a of
             Some cfg \<Rightarrow> ok (proxy_has cfg k s) s
           | None \<Rightarrow> duk_has_prop_string i k s)
      | _ \<Rightarrow> duk_has_prop_string i k s)"

definition duk_get_prop_string_trap :: "int \<Rightarrow> string \<Rightarrow> dstate \<Rightarrow> bool res" where
  "duk_get_prop_string_trap i k s =
     (case duk_get_tval i s of
        Some (VObject a) \<Rightarrow>
          (case proxy_target s a of
             Some cfg \<Rightarrow> andThen (proxy_get a cfg k s) (\<lambda>v s. ok (v \<noteq> VUndefined) (s\<lparr>stack := v # stack s\<rparr>))
           | None \<Rightarrow> duk_get_prop_string i k s)
      | _ \<Rightarrow> duk_get_prop_string i k s)"

text \<open>
  Modelled from the spec: the constructor of the host class \<open>JavaScriptObject\<close> (host
  side, not part of this file). Section 4.4: the new handle carries the Context identity
  and the engine heap pointer.
\<close>

definition JavaScriptObject :: "nat \<Rightarrow> addr \<Rightarrow> hostobj" where
  "JavaScriptObject ctx ptr =
     plain_hostobj\<lparr>isJavaScriptObject := True, isDuktapeObject := True,
                   contextField := ctx, pointerField := ptr\<rparr>"

text \<open>
  The object branch of \<open>popObject\<close>, lines 157 to 208: the engine object on top of the
  stack becomes a host-visible handle.
\<close>

definition popObject_object :: "dstate \<Rightarrow> jref res" where
  "popObject_object s =
     andThen (duk_has_prop_string_trap (-1) ''__java_this'' s) (\<lambda>has s.
     andThen (if has then
                andThen (duk_get_prop_string_trap (-1) ''__java_this'' s) (\<lambda>_ s.
                (let p = duk_get_pointer (-1) s in
                andThen (duk_pop s) (\<lambda>_ s.
                case as_jobject p of
                  None \<Rightarrow> throw (Crash ''not a jobject'') s
                | Some javaThis \<Rightarrow>
                    if javaThis \<noteq> NullRef \<and> IsSameObject s javaThis NullRef
                    then
                      andThen (DeleteWeakGlobalRef javaThis s) (\<lambda>_ s.
                      andThen (duk_del_prop_string (-1) ''__java_this'' s) (\<lambda>_ s.
                        ok NullRef s))
                    else ok javaThis s)))
              else ok NullRef s) (\<lambda>javaThis s.
     if javaThis \<noteq> NullRef then andThen (duk_pop s) (\<lambda>_ s. ok javaThis s)
     else
       (case duk_get_heapptr (-1) s of
          None \<Rightarrow> throw (Crash ''null heap pointer'') s
        | Some ptr \<Rightarrow>
            andThen (duk_push_global_stash s) (\<lambda>_ s.
            andThen (duk_push_heapptr ptr s) (\<lambda>_ s.
            andThen (duk_put_prop_heapptr (-2) ptr s) (\<lambda>_ s.
            andThen (duk_pop s) (\<lambda>_ s.
            andThen (NewObject (JavaScriptObject (this_context s) ptr) s) (\<lambda>javaThis s.
            andThen (NewWeakGlobalRef javaThis s) (\<lambda>weakRef s.
            andThen (duk_push_pointer (PJRef weakRef) s) (\<lambda>_ s.
            andThen (duk_put_prop_string (-2) ''__java_this'' s) (\<lambda>_ s.
            andThen (duk_pop s) (\<lambda>_ s.
              ok javaThis s))))))))))))"

text \<open>\<open>popObject\<close>, lines 149 to 214.\<close>

definition popObject :: "dstate \<Rightarrow> jref res" where
  "popObject s =
     (if duk_check_type_mask_scalar (-1) s then objectType_pop s
      else if duk_is_array (-1) s then objectType_popArray s
      else if duk_is_object (-1) s then popObject_object s
      else andThen (duk_pop s) (\<lambda>_ s. ok NullRef s))"

definition popObject2 :: "dstate \<Rightarrow> jref res" where
  "popObject2 s = andThen (popObject s) (\<lambda>ret s. andThen (duk_pop s) (\<lambda>_ s. ok ret s))"

section \<open>The apply trap\<close>

text \<open>
  \<open>duk_get_length\<close> and \<open>duk_get_prop_index\<close>, as the apply trap uses them on its
  argument list: an engine array. Elements of other objects are not modelled.
\<close>

definition duk_get_length :: "int \<Rightarrow> dstate \<Rightarrow> nat res" where
  "duk_get_length i s =
     (case duk_get_tval i s of
        None \<Rightarrow> throw (DukError ''invalid stack index'') s
      | Some (VObject a) \<Rightarrow>
          (case heap s a of
             Some obj \<Rightarrow> (case kind obj of Array xs \<Rightarrow> ok (length xs) s | _ \<Rightarrow> ok 0 s)
           | None \<Rightarrow> throw (Crash ''dangling heap pointer'') s)
      | Some (VString x) \<Rightarrow> ok (length x) s
      | Some _ \<Rightarrow> ok 0 s)"

definition duk_get_prop_index :: "int \<Rightarrow> nat \<Rightarrow> dstate \<Rightarrow> bool res" where
  "duk_get_prop_index i n s =
     (case duk_get_tval i s of
        None \<Rightarrow> throw (DukError ''invalid stack index'') s
      | Some VUndefined \<Rightarrow> throw (DukError ''cannot read property of undefined'') s
      | Some VNull \<Rightarrow> throw (DukError ''cannot read property of null'') s
      | Some (VObject a) \<Rightarrow>
          (case heap s a of
             Some obj \<Rightarrow>
               (case kind obj of
                  Array xs \<Rightarrow>
                    if n < length xs then ok True (s\<lparr>stack := xs ! n # stack s\<rparr>)
                    else ok False (s\<lparr>stack := VUndefined # stack s\<rparr>)
                | _ \<Rightarrow> ok False (s\<lparr>stack := VUndefined # stack s\<rparr>))
           | None \<Rightarrow> throw (Crash ''dangling heap pointer'') s)
      | Some _ \<Rightarrow> ok False (s\<lparr>stack := VUndefined # stack s\<rparr>))"

text \<open>The argument loop of \<open>__duktape_apply\<close>, lines 272 to 275, over the indices.\<close>

fun unpack_args :: "nat list \<Rightarrow> jref list \<Rightarrow> dstate \<Rightarrow> (jref list) res" where
  "unpack_args [] javaArgs s = ok javaArgs s"
| "unpack_args (i # rest) javaArgs s =
     andThen (duk_get_prop_index (-1) i s) (\<lambda>_ s.
     andThen (popObject s) (\<lambda>x s.
       unpack_args rest (javaArgs @ [x]) s))"

text \<open>
  \<open>__duktape_apply\<close>, lines 265 to 302. The frame is, top first, the argument list, the
  this binding and the configuration object. \<open>apply_unpack\<close> is its first part, lines
  266 to 285: it yields the host-side arguments, the host-side this binding and the
  pointer stored in the configuration object.
\<close>

definition apply_unpack :: "dstate \<Rightarrow> (jref list \<times> jref \<times> pointer) res" where
  "apply_unpack s =
     andThen (getJNIEnv s) (\<lambda>_ s.
     andThen (getDuktapeContext s) (\<lambda>_ s.
     andThen (duk_get_length (-1) s) (\<lambda>argLen s.
     andThen (unpack_args [0..<argLen] [] s) (\<lambda>javaArgs s.
     andThen (duk_pop s) (\<lambda>_ s.
     andThen (popObject s) (\<lambda>javaThis s.
     andThen (duk_get_prop_string (-1) JAVA_THIS_PROP_NAME s) (\<lambda>_ s.
     andThen (duk_require_pointer (-1) s) (\<lambda>p s.
     andThen (duk_pop s) (\<lambda>_ s.
       ok (javaArgs, javaThis, p) s)))))))))"

definition duktape_apply :: "dstate \<Rightarrow> int res" where
  "duktape_apply s =
     andThen (apply_unpack s) (\<lambda>(javaArgs, javaThis, p) s.
       case as_jobject p of
         None \<Rightarrow> throw (Crash ''not a jobject'') s
       | Some object \<Rightarrow>
           andThen (GetObjectClass object s) (\<lambda>objectClass s.
           if \<not> isDuktapeObject objectClass
           then fatalErrorHandler p ''Object is not DuktapeObject'' s
           else
             andThen (CallObjectMethod_invoke object javaThis javaArgs s) (\<lambda>push s.
             andThen (checkRethrowDuktapeError s) (\<lambda>completed s.
             if \<not> completed then ok DUK_RET_ERROR s
             else andThen (pushObject push s) (\<lambda>_ s. ok 1 s)))))"

section \<open>The finalizer\<close>

text \<open>
  \<open>duk_enum\<close> with \<open>DUK_ENUM_OWN_PROPERTIES_ONLY\<close> pushes an enumerator over the own
  keys that are not hidden. \<open>duk_next\<close> with \<open>get_value\<close> pushes the next key that is
  still present and its value, or pushes nothing and returns false at the end.
\<close>

definition duk_enum :: "int \<Rightarrow> dstate \<Rightarrow> unit res" where
  "duk_enum i s =
     (case duk_get_tval i s of
        None \<Rightarrow> throw (DukError ''invalid stack index'') s
      | Some (VObject a) \<Rightarrow>
          (case alloc (new_object (Enumerator a (filter (\<lambda>k. \<not> is_hidden k) (map fst (own_props s a))))) s of
             (e, s') \<Rightarrow> ok () (s'\<lparr>stack := VObject e # stack s'\<rparr>))
      | Some _ \<Rightarrow> throw (DukError ''object required'') s)"

definition prop_value :: "dstate \<Rightarrow> addr \<Rightarrow> string \<Rightarrow> jsval" where
  "prop_value s a k = (case map_of (own_props s a) k of Some v \<Rightarrow> v | None \<Rightarrow> VUndefined)"

definition duk_next :: "int \<Rightarrow> dstate \<Rightarrow> bool res" where
  "duk_next i s =
     (case duk_get_tval i s of
        None \<Rightarrow> throw (DukError ''invalid stack index'') s
      | Some (VObject e) \<Rightarrow>
          (case heap s e of
             None \<Rightarrow> throw (Crash ''dangling heap pointer'') s
           | Some obj \<Rightarrow>
               (case kind obj of
                  Enumerator a ks \<Rightarrow>
                    (case dropWhile (\<lambda>k. map_of (own_props s a) k = None) ks of
                       [] \<Rightarrow> ok False (s\<lparr>heap := (heap s)(e \<mapsto> obj\<lparr>kind := Enumerator a []\<rparr>)\<rparr>)
                     | k # ks' \<Rightarrow>
                         ok True (s\<lparr>heap := (heap s)(e \<mapsto> obj\<lparr>kind := Enumerator a ks'\<rparr>),
                                   stack := prop_value s a k # VString k # stack s\<rparr>))
                | _ \<Rightarrow> throw (DukError ''not an enumerator'') s))
      | Some _ \<Rightarrow> throw (DukError ''object required'') s)"

text \<open>\<open>delete static_cast<JavaMethod*>(p)\<close>.\<close>

definition delete_JavaMethod :: "pointer \<Rightarrow> dstate \<Rightarrow> unit res" where
  "delete_JavaMethod p s =
     (case p of
        PJavaMethod m \<Rightarrow> ok () (s\<lparr>destroyed := destroyed s @ [m]\<rparr>)
      | PNull \<Rightarrow> ok () s
      | _ \<Rightarrow> throw (Crash ''not a JavaMethod'') s)"

text \<open>
  The loop of the finalizer, lines 97 to 104, runs while \<open>duk_next\<close> finds a key. Its
  termination rests on the enumerator: every round consumes a key, or leaves something
  that is not an enumerator on top of the stack, where \<open>duk_next\<close> raises.
\<close>

definition remaining :: "dstate \<Rightarrow> nat" where
  "remaining s =
     (case stack s of
        VObject e # _ \<Rightarrow>
          (case heap s e of
             Some obj \<Rightarrow> (case kind obj of Enumerator _ ks \<Rightarrow> Suc (length ks) | _ \<Rightarrow> 0)
           | None \<Rightarrow> 0)
      | _ \<Rightarrow> 0)"

lemma andThen_cong [fundef_cong]:
  "m = m' \<Longrightarrow> (\<And>a s. m' = (Inr a, s) \<Longrightarrow> f a s = f' a s) \<Longrightarrow> andThen m f = andThen m' f'"
  by (auto simp: andThen_def split: prod.splits sum.splits)

lemma tval_top: "duk_get_tval (-1) s = (case stack s of [] \<Rightarrow> None | v # _ \<Rightarrow> Some v)"
  by (simp add: duk_get_tval_def at_index_def split: list.splits)

lemma duk_next_more:
  assumes "duk_next (-1) s = (Inr True, s1)"
  shows "\<exists>v k. stack s1 = v # VString k # stack s \<and> remaining (s1\<lparr>stack := stack s\<rparr>) < remaining s"
proof -
  from assms obtain e st where st: "stack s = VObject e # st"
    by (auto simp: duk_next_def tval_top throw_def split: list.splits jsval.splits)
  from assms st obtain obj where obj: "heap s e = Some obj"
    by (auto simp: duk_next_def tval_top throw_def split: option.splits)
  from assms st obj obtain a ks where k: "kind obj = Enumerator a ks"
    by (auto simp: duk_next_def tval_top throw_def split: okind.splits)
  from assms st obj k obtain k' ks' where d: "dropWhile (\<lambda>k. map_of (own_props s a) k = None) ks = k' # ks'"
    by (auto simp: duk_next_def tval_top ok_def split: list.splits)
  have "length (k' # ks') \<le> length ks"
    unfolding d[symmetric] by (rule length_dropWhile_le)
  with assms st obj k d show ?thesis
    by (auto simp: duk_next_def tval_top ok_def remaining_def)
qed

lemma duk_get_prop_string_frame:
  "duk_get_prop_string i k s = (Inr b, s') \<Longrightarrow> \<exists>x. s' = s\<lparr>stack := x # stack s\<rparr>"
  by (auto simp: duk_get_prop_string_def ok_def throw_def split: option.splits jsval.splits)

lemma duk_pop_2_frame:
  "duk_pop_2 s = (Inr u, s') \<Longrightarrow> \<exists>x y. stack s = x # y # stack s' \<and> s' = s\<lparr>stack := stack s'\<rparr>"
  by (auto simp: duk_pop_2_def ok_def throw_def split: list.splits)

lemma duk_pop_3_frame:
  "duk_pop_3 s = (Inr u, s') \<Longrightarrow> \<exists>x y z. stack s = x # y # z # stack s' \<and> s' = s\<lparr>stack := stack s'\<rparr>"
  by (auto simp: duk_pop_3_def ok_def throw_def split: list.splits)

lemma duk_require_pointer_frame: "duk_require_pointer i s = (Inr p, s') \<Longrightarrow> s' = s"
  by (auto simp: duk_require_pointer_def ok_def throw_def split: option.splits jsval.splits)

lemma delete_JavaMethod_frame:
  "delete_JavaMethod p s = (Inr u, s') \<Longrightarrow> stack s' = stack s \<and> heap s' = heap s"
  by (auto simp: delete_JavaMethod_def ok_def throw_def split: pointer.splits)

lemma remaining_cong: "stack s = stack t \<Longrightarrow> heap s = heap t \<Longrightarrow> remaining s = remaining t"
  by (simp add: remaining_def split: list.splits jsval.splits)

function finalizer_loop :: "dstate \<Rightarrow> unit res" where
  "finalizer_loop s =
     andThen (duk_next (-1) s) (\<lambda>more s.
     if \<not> more then ok () s
     else
       andThen (duk_get_prop_string (-1) JAVA_METHOD_PROP_NAME s) (\<lambda>found s.
       if \<not> found then andThen (duk_pop_2 s) (\<lambda>_ s. finalizer_loop s)
       else
         andThen (duk_require_pointer (-1) s) (\<lambda>p s.
         andThen (delete_JavaMethod p s) (\<lambda>_ s.
         andThen (duk_pop_3 s) (\<lambda>_ s. finalizer_loop s)))))"
  by pat_completeness auto
termination
proof (relation "measure remaining")
  show "wf (measure remaining)" by simp
next
  fix s more s1 found s2 u s3
  assume n: "duk_next (- 1) s = (Inr more, s1)" and m: "\<not> \<not> more"
    and g: "duk_get_prop_string (- 1) JAVA_METHOD_PROP_NAME s1 = (Inr found, s2)"
    and p: "duk_pop_2 s2 = (Inr u, s3)"
  from n m have nt: "duk_next (- 1) s = (Inr True, s1)" by simp
  from duk_next_more[OF nt] obtain v k where s1: "stack s1 = v # VString k # stack s"
    and lt: "remaining (s1\<lparr>stack := stack s\<rparr>) < remaining s"
    by blast
  from g obtain x where s2: "s2 = s1\<lparr>stack := x # stack s1\<rparr>"
    using duk_get_prop_string_frame by blast
  from p s1 s2 have "stack s3 = VString k # stack s"
    by (auto dest: duk_pop_2_frame)
  then have "remaining s3 = 0" by (simp add: remaining_def)
  with lt show "(s3, s) \<in> measure remaining" by simp
next
  fix s more s1 found s2 p s3 u s4 u' s5
  assume n: "duk_next (- 1) s = (Inr more, s1)" and m: "\<not> \<not> more"
    and g: "duk_get_prop_string (- 1) JAVA_METHOD_PROP_NAME s1 = (Inr found, s2)"
    and r: "duk_require_pointer (- 1) s2 = (Inr p, s3)"
    and d: "delete_JavaMethod p s3 = (Inr u, s4)"
    and p: "duk_pop_3 s4 = (Inr u', s5)"
  from n m have nt: "duk_next (- 1) s = (Inr True, s1)" by simp
  from duk_next_more[OF nt] obtain v k where s1: "stack s1 = v # VString k # stack s"
    and lt: "remaining (s1\<lparr>stack := stack s\<rparr>) < remaining s"
    by blast
  from g obtain x where s2: "s2 = s1\<lparr>stack := x # stack s1\<rparr>"
    using duk_get_prop_string_frame by blast
  from r have s3: "s3 = s2" by (rule duk_require_pointer_frame)
  from d have s4: "stack s4 = stack s3" "heap s4 = heap s3"
    by (auto dest: delete_JavaMethod_frame)
  from p obtain a b c where s5: "stack s4 = a # b # c # stack s5" "s5 = s4\<lparr>stack := stack s5\<rparr>"
    using duk_pop_3_frame by blast
  have st: "stack s5 = stack s" using s5 s4 s3 s2 s1 by simp
  have "heap s5 = heap s4" using s5(2) by (metis dstate.select_convs(2) dstate.surjective dstate.update_convs(1))
  then have hp: "heap s5 = heap s1" using s4 s3 s2 by simp
  have "remaining s5 = remaining (s1\<lparr>stack := stack s\<rparr>)"
    by (rule remaining_cong) (simp_all add: st hp)
  with lt show "(s5, s) \<in> measure remaining" by simp
qed

text \<open>
  \<open>javaObjectFinalizer\<close>, lines 87 to 109. The frame holds the object being finalized.
\<close>

definition javaObjectFinalizer :: "dstate \<Rightarrow> int res" where
  "javaObjectFinalizer s =
     andThen (duk_get_prop_string (-1) JAVA_THIS_PROP_NAME s) (\<lambda>found s.
     andThen (if found then
                andThen (getJNIEnv s) (\<lambda>_ s.
                andThen (duk_require_pointer (-1) s) (\<lambda>p s.
                case as_jobject p of
                  None \<Rightarrow> throw (Crash ''not a jobject'') s
                | Some r \<Rightarrow>
                    andThen (DeleteGlobalRef r s) (\<lambda>_ s.
                    andThen (duk_pop s) (\<lambda>_ s.
                    andThen (duk_del_prop_string (-1) JAVA_METHOD_PROP_NAME s) (\<lambda>_ s. ok () s)))))
              else ok () s) (\<lambda>_ s.
     andThen (duk_enum (-1) s) (\<lambda>_ s.
     andThen (finalizer_loop s) (\<lambda>_ s.
     andThen (duk_pop_2 s) (\<lambda>_ s. ok 0 s)))))"

section \<open>Calls into script code\<close>

text \<open>
  The engine calling one of the file's C functions with the number of arguments it was
  registered with. \<open>javaMethodHandler\<close> delegates to \<open>JavaMethod::invoke\<close>, which is not
  part of this file; calls of it are not modelled.
\<close>

definition pad :: "nat \<Rightarrow> jsval list \<Rightarrow> jsval list" where
  "pad n args = take n (args @ replicate n VUndefined)"

definition call_cfunction :: "cfun \<Rightarrow> jsval list \<Rightarrow> dstate \<Rightarrow> jsval res" where
  "call_cfunction f args s =
     (case f of
        Fn_duktape_get \<Rightarrow> call_frame duktape_get (pad 3 args) s
      | Fn_duktape_apply \<Rightarrow> call_frame duktape_apply (pad 3 args) s
      | Fn_javaObjectFinalizer \<Rightarrow> call_frame javaObjectFinalizer (pad 1 args) s
      | Fn_javaMethodHandler \<Rightarrow> throw (DukError ''JavaMethod::invoke is not modelled'') s)"

text \<open>
  Modelled from the spec: how a proxy made by \<open>__makeProxy\<close> answers a call (the handler
  is script code, not part of this file). Section 4.3: the call goes to the apply trap of
  the configuration object, with the configuration object, the this binding and the
  arguments as an engine array.
\<close>

definition proxy_apply :: "addr \<Rightarrow> jsval \<Rightarrow> jsval list \<Rightarrow> dstate \<Rightarrow> jsval res" where
  "proxy_apply cfg this args s =
     (case map_of (own_props s cfg) ''__duktape_apply'' of
        Some (VObject f) \<Rightarrow>
          (case heap s f of
             Some obj \<Rightarrow>
               (case kind obj of
                  CFunction fn \<Rightarrow>
                    (case alloc (new_object (Array args)) s of
                       (arr, s') \<Rightarrow> call_cfunction fn [VObject cfg, this, VObject arr] s')
                | _ \<Rightarrow> throw (DukError ''not callable'') s)
           | None \<Rightarrow> throw (Crash ''dangling heap pointer'') s)
      | _ \<Rightarrow> throw (DukError ''not callable'') s)"

text \<open>
  What the engine does with a callee. Script functions other than \<open>__makeProxy\<close> are not
  part of the model: the heap holds none.
\<close>

definition call_value :: "jsval \<Rightarrow> jsval \<Rightarrow> jsval list \<Rightarrow> dstate \<Rightarrow> jsval res" where
  "call_value callee this args s =
     (case callee of
        VObject a \<Rightarrow>
          (case heap s a of
             Some obj \<Rightarrow>
               (case kind obj of
                  MakeProxyFn \<Rightarrow> makeProxy args s
                | CFunction f \<Rightarrow> call_cfunction f args s
                | Proxy cfg \<Rightarrow> proxy_apply cfg this args s
                | _ \<Rightarrow> throw (DukError ''not callable'') s)
           | None \<Rightarrow> throw (Crash ''dangling heap pointer'') s)
      | _ \<Rightarrow> throw (DukError ''not callable'') s)"

definition duk_pcall :: "nat \<Rightarrow> dstate \<Rightarrow> bool res" where
  "duk_pcall nargs s = duk_pcall_with call_value VUndefined nargs s"

text \<open>
  \<open>duk_pcall_prop(ctx, obj_idx, nargs)\<close>: the callee is the property of the object at
  \<open>obj_idx\<close> named by the key below the arguments, read through the object's traps; the
  object is the this binding; key and arguments are replaced by the result. Keys other
  than strings are not modelled.
\<close>

definition get_prop_value :: "jsval \<Rightarrow> jsval \<Rightarrow> dstate \<Rightarrow> jsval res" where
  "get_prop_value obj key s =
     (case (obj, key) of
        (VUndefined, _) \<Rightarrow> throw (DukError ''cannot read property of undefined'') s
      | (VNull, _) \<Rightarrow> throw (DukError ''cannot read property of null'') s
      | (VObject a, VString k) \<Rightarrow>
          (case proxy_target s a of
             Some cfg \<Rightarrow> proxy_get a cfg k s
           | None \<Rightarrow> ok (prop_value s a k) s)
      | (_, VString k) \<Rightarrow> ok VUndefined s
      | _ \<Rightarrow> throw (DukError ''property key is not a string'') s)"

definition duk_pcall_prop :: "int \<Rightarrow> nat \<Rightarrow> dstate \<Rightarrow> bool res" where
  "duk_pcall_prop obj_idx nargs s =
     (case duk_get_tval obj_idx s of
        None \<Rightarrow> throw (DukError ''invalid stack index'') s
      | Some obj \<Rightarrow>
          duk_pcall_with
            (\<lambda>key this args s. andThen (get_prop_value this key s) (\<lambda>f s. call_value f this args s))
            obj nargs s)"

definition duk_normalize_index :: "int \<Rightarrow> dstate \<Rightarrow> int option" where
  "duk_normalize_index i s =
     (case at_index (stack s) i of None \<Rightarrow> None | Some k \<Rightarrow> Some (int (length (stack s) - 1 - k)))"

text \<open>The argument loops of \<open>call\<close> and \<open>callProperty\<close>; a null array pushes nothing.\<close>

fun push_each :: "jref list \<Rightarrow> dstate \<Rightarrow> unit res" where
  "push_each [] s = ok () s"
| "push_each (arg # rest) s = andThen (pushObject arg s) (\<lambda>_ s. push_each rest s)"

definition push_args :: "jref list option \<Rightarrow> dstate \<Rightarrow> nat res" where
  "push_args args s =
     (case args of
        None \<Rightarrow> ok 0 s
      | Some xs \<Rightarrow> andThen (push_each xs s) (\<lambda>_ s. ok (length xs) s))"

text \<open>
  \<open>call\<close>, lines 385 to 405. \<open>CHECK_STACK\<close> (StackChecker.h) is a debug-build check of
  the stack balance and compiles to nothing in a release build.
\<close>

definition call :: "addr \<Rightarrow> jref list option \<Rightarrow> dstate \<Rightarrow> jref res" where
  "call object args s =
     andThen (pushObject_ptr object s) (\<lambda>_ s.
     andThen (push_args args s) (\<lambda>length s.
     andThen (duk_pcall length s) (\<lambda>success s.
       if \<not> success
       then andThen (queueJavaExceptionForDuktapeError s) (\<lambda>_ s. ok NullRef s)
       else popObject s)))"

text \<open>\<open>callProperty\<close>, lines 407 to 432.\<close>

definition callProperty :: "addr \<Rightarrow> jref \<Rightarrow> jref list option \<Rightarrow> dstate \<Rightarrow> jref res" where
  "callProperty object property args s =
     andThen (pushObject_ptr object s) (\<lambda>_ s.
     (case duk_normalize_index (-1) s of
        None \<Rightarrow> throw (DukError ''invalid stack index'') s
      | Some objectIndex \<Rightarrow>
          andThen (pushObject property s) (\<lambda>_ s.
          andThen (push_args args s) (\<lambda>length s.
          andThen (duk_pcall_prop objectIndex length s) (\<lambda>success s.
            if \<not> success
            then andThen (queueJavaExceptionForDuktapeError s) (\<lambda>_ s.
                 andThen (duk_pop s) (\<lambda>_ s. ok NullRef s))
            else popObject2 s)))))"

text \<open>
  \<open>duk_put_prop(ctx, obj_idx)\<close>: like \<open>duk_put_prop_string\<close>, with the key taken from
  the stack, below the value; both are popped. A key that is not a string is coerced by
  the engine.
\<close>

definition to_property_key :: "dstate \<Rightarrow> jsval \<Rightarrow> string" where
  "to_property_key s key = (case key of VString k \<Rightarrow> k | _ \<Rightarrow> property_key s key)"

definition duk_put_prop :: "int \<Rightarrow> dstate \<Rightarrow> unit res" where
  "duk_put_prop i s =
     (case (duk_get_tval i s, stack s) of
        (Some (VObject a), v # key # st) \<Rightarrow>
           ok () ((set_props a (AList.update (to_property_key s key) v (own_props s a)) s)\<lparr>stack := st\<rparr>)
      | (Some VUndefined, _ # _ # _) \<Rightarrow> throw (DukError ''cannot write property of undefined'') s
      | (Some VNull, _ # _ # _) \<Rightarrow> throw (DukError ''cannot write property of null'') s
      | (Some _, _ # _ # _) \<Rightarrow> throw (DukError ''invalid base value'') s
      | _ \<Rightarrow> throw (DukError ''invalid stack index'') s)"

text \<open>\<open>setGlobalProperty\<close>, lines 434 to 442.\<close>

definition setGlobalProperty :: "jref \<Rightarrow> jref \<Rightarrow> dstate \<Rightarrow> unit res" where
  "setGlobalProperty property val s =
     andThen (duk_push_global_object s) (\<lambda>_ s.
     andThen (pushObject property s) (\<lambda>_ s.
     andThen (pushObject val s) (\<lambda>_ s.
     andThen (duk_put_prop (-3) s) (\<lambda>_ s.
     duk_pop s))))"

section \<open>Binding a host object as a global\<close>

text \<open>
  Modelled from the spec: the constructor of \<open>JavaMethod\<close> (JavaMethod.h, not part of
  this file). Section 3: a descriptor is allocated for each bound method; the
  constructor rejects a method it cannot marshal with \<open>std::invalid_argument\<close>, whose
  message is \<open>rejected\<close>.
\<close>

record jmethod =
  methodName :: string
  rejected :: "string option"

fun bind_methods :: "jmethod list \<Rightarrow> string \<Rightarrow> int \<Rightarrow> dstate \<Rightarrow> bool res" where
  "bind_methods [] instanceName objIndex s = ok True s"
| "bind_methods (m # rest) instanceName objIndex s =
     (case rejected m of
        Some what \<Rightarrow>
          andThen (queueIllegalArgumentException
                     (''In bound method '' @ [CHR 0x22] @ instanceName @ ''.'' @ methodName m
                        @ [CHR 0x22] @ '': '' @ what) s) (\<lambda>_ s.
          andThen (duk_pop_2 s) (\<lambda>_ s. ok False s))
      | None \<Rightarrow>
          andThen (duk_push_c_function Fn_javaMethodHandler (s\<lparr>next_method := Suc (next_method s)\<rparr>)) (\<lambda>func s'.
          andThen (duk_push_pointer (PJavaMethod (next_method s)) s') (\<lambda>_ s'.
          andThen (duk_put_prop_string func JAVA_METHOD_PROP_NAME s') (\<lambda>_ s'.
          andThen (duk_put_prop_string objIndex (methodName m) s') (\<lambda>_ s'.
            bind_methods rest instanceName objIndex s')))))"

text \<open>\<open>DuktapeContext::set\<close>, lines 495 to 550.\<close>

definition DuktapeContext_set :: "string \<Rightarrow> jref \<Rightarrow> jmethod list \<Rightarrow> dstate \<Rightarrow> unit res" where
  "DuktapeContext_set instanceName object methods s =
     andThen (duk_push_global_object s) (\<lambda>_ s.
     andThen (duk_has_prop_string (-1) instanceName s) (\<lambda>present s.
     if present then
       andThen (duk_pop s) (\<lambda>_ s.
         queueIllegalArgumentException (''A global object called '' @ instanceName @ '' already exists'') s)
     else
       andThen (duk_push_object s) (\<lambda>idx s.
       andThen (duk_require_normalize_index idx s) (\<lambda>objIndex s.
       andThen (duk_push_c_function Fn_javaObjectFinalizer s) (\<lambda>_ s.
       andThen (duk_set_finalizer objIndex s) (\<lambda>_ s.
       andThen (bind_methods methods instanceName objIndex s) (\<lambda>completed s.
       if \<not> completed then ok () s
       else
         andThen (NewGlobalRef object s) (\<lambda>ref s.
         andThen (duk_push_pointer (PJRef ref) s) (\<lambda>_ s.
         andThen (duk_put_prop_string objIndex JAVA_THIS_PROP_NAME s) (\<lambda>_ s.
         andThen (duk_put_prop_string (-2) instanceName s) (\<lambda>_ s.
           duk_pop s)))))))))))"

section \<open>Vocabulary of the properties\<close>

text \<open>
  An ordinary engine object is one that is neither an array nor a proxy: a plain object
  or a function.
\<close>

definition is_ordinary :: "okind \<Rightarrow> bool" where
  "is_ordinary k = (case k of Array _ \<Rightarrow> False | Proxy _ \<Rightarrow> False | _ \<Rightarrow> True)"

text \<open>
  The global object is a plain object that holds the factory under \<open>__makeProxy\<close>, and
  both were allocated before the next free address.
\<close>

definition factory_installed :: "dstate \<Rightarrow> bool" where
  "factory_installed s =
     (case heap s (global_addr s) of
        None \<Rightarrow> False
      | Some gobj \<Rightarrow>
          kind gobj = Plain \<and> global_addr s < next_addr s \<and>
          (case map_of (props gobj) ''__makeProxy'' of
             Some (VObject mp) \<Rightarrow>
               mp < next_addr s \<and>
               (case heap s mp of Some mobj \<Rightarrow> kind mobj = MakeProxyFn | None \<Rightarrow> False)
           | _ \<Rightarrow> False))"


text \<open>
  The state \<open>pushObject\<close> leaves when it builds a proxy for the host object \<open>y\<close>: a new
  strong reference to \<open>y\<close>, five new engine objects (the configuration object, the three
  C functions and the proxy) and the proxy on top of the stack.
\<close>

definition after_proxy :: "jobj \<Rightarrow> dstate \<Rightarrow> dstate" where
  "after_proxy y s =
     s\<lparr>grefs := (grefs s)(next_gref s \<mapsto> y),
       next_gref := Suc (next_gref s),
       heap := (heap s)
         (next_addr s \<mapsto>
            \<lparr>kind = Plain,
             props = [(JAVA_THIS_PROP_NAME, VPointer (PJRef (GlobalRef (next_gref s)))),
                      (''__duktape_get'', VObject (next_addr s + 2)),
                      (''__duktape_apply'', VObject (next_addr s + 3))],
             finalizer = VObject (next_addr s + 1)\<rparr>,
          next_addr s + 1 \<mapsto> new_object (CFunction Fn_javaObjectFinalizer),
          next_addr s + 2 \<mapsto> new_object (CFunction Fn_duktape_get),
          next_addr s + 3 \<mapsto> new_object (CFunction Fn_duktape_apply),
          next_addr s + 4 \<mapsto> new_object (Proxy (next_addr s))),
       next_addr := next_addr s + 5,
       stack := VObject (next_addr s + 4) # stack s\<rparr>"

text \<open>A host object pushed into the engine and popped back at once.\<close>

definition round_trip :: "jref \<Rightarrow> dstate \<Rightarrow> jref res" where
  "round_trip object s = andThen (pushObject object s) (\<lambda>_ s. popObject s)"

text \<open>The collector running the finalizer of the engine object \<open>a\<close>.\<close>

definition finalize :: "addr \<Rightarrow> dstate \<Rightarrow> jsval res" where
  "finalize a s = call_frame javaObjectFinalizer [VObject a] s"

text \<open>The frame the engine builds for the apply trap of a proxy over \<open>cfg\<close>.\<close>

definition apply_frame :: "addr \<Rightarrow> jsval \<Rightarrow> jsval list \<Rightarrow> dstate \<Rightarrow> dstate" where
  "apply_frame cfg this args s =
     (snd (alloc (new_object (Array args)) s))\<lparr>stack := [VObject (next_addr s), this, VObject cfg]\<rparr>"

section \<open>A concrete Context\<close>

text \<open>
  Modelled from the spec: the start-up script of the host side, which defines the global
  \<open>__makeProxy\<close> (section 4.2).
\<close>

definition install_makeProxy :: "dstate \<Rightarrow> dstate" where
  "install_makeProxy s =
     (case alloc (new_object MakeProxyFn) s of
        (f, s') \<Rightarrow>
          set_props (global_addr s')
            (AList.update ''__makeProxy'' (VObject f) (own_props s' (global_addr s'))) s')"

text \<open>
  The host of the examples: the \<open>Duktape\<close> object (0), an implementation of
  \<open>DuktapeObject\<close> whose \<open>invoke\<close> raises (1), a plain object (2), a handle created by
  another Context (3) and a string (4). The engine's key for a heap value is taken to be
  one-to-one.
\<close>

definition ptr_key :: "addr \<Rightarrow> string" where
  "ptr_key a = ''ptr:'' @ replicate a (CHR ''i'')"

definition ex_objects :: "jobj \<Rightarrow> hostobj option" where
  "ex_objects = (\<lambda>_. None)
     (0 \<mapsto> plain_hostobj,
      1 \<mapsto> plain_hostobj\<lparr>isDuktapeObject := True\<rparr>,
      2 \<mapsto> plain_hostobj,
      3 \<mapsto> JavaScriptObject 99 2,
      4 \<mapsto> boxed (VString ''m''))"

definition ex_host :: dstate where
  "ex_host =
     \<lparr>stack = [], heap = (\<lambda>_. None), next_addr = 0, global_addr = 0, stash_addr = 0,
      heapptr_key = ptr_key, this_context = 0, m_javaDuktape = NullRef,
      jobjects = ex_objects, next_jobj = 5,
      grefs = (\<lambda>_. None), next_gref = 0, wrefs = (\<lambda>_. None), next_wref = 0,
      collected = (\<lambda>_. False), pending = None, released = [], next_method = 0, destroyed = [],
      host_get = (\<lambda>x k. if k = ''m'' then Inr (LocalRef 1) else Inr NullRef),
      host_invoke = (\<lambda>x t a. if x = 1 then Inl (HostException ''boom'') else Inr NullRef),
      ndebug = True, context_dump = (\<lambda>_. ''ctx''), property_key = (\<lambda>_. ''key'')\<rparr>"

definition ex_ctx :: dstate where
  "ex_ctx = install_makeProxy (DuktapeContext 77 (LocalRef 0) ex_host)"

text \<open>The Context after the plain host object 2 was bound as the global \<open>svc\<close>.\<close>

definition ex_method :: jmethod where
  "ex_method = \<lparr>methodName = ''run'', rejected = None\<rparr>"

definition ex_bound :: dstate where
  "ex_bound = snd (DuktapeContext_set ''svc'' (LocalRef 2) [ex_method] ex_ctx)"

text \<open>The Context after the host object 1 crossed into the engine: its proxy is on the stack.\<close>

definition ex_proxy :: dstate where
  "ex_proxy = snd (pushObject (LocalRef 1) ex_ctx)"

text \<open>
  The Context after a new script object (engine address 3) was popped to the host: the
  host holds the handle 5.
\<close>

definition ex_handle :: dstate where
  "ex_handle = snd (andThen (duk_push_object ex_ctx) (\<lambda>_ s. popObject s))"

text \<open>The same, after script code deleted the property \<open>__java_this\<close> of that object.\<close>

definition ex_handle_lost :: dstate where
  "ex_handle_lost = set_props 3 (AList.delete ''__java_this'' (own_props ex_handle 3)) ex_handle"

section \<open>Properties\<close>

subsection \<open>Evaluation rules\<close>

lemma andThen_throw: "andThen (throw e s) f = throw e s"
  by (simp add: andThen_def throw_def)

lemma andThen_ok: "andThen (ok a s) f = f a s"
  by (simp add: andThen_def ok_def)

lemma andThen_Inr [simp]: "andThen (Inr a, s) f = f a s"
  by (simp add: andThen_def)

lemma andThen_Inl [simp]: "andThen (Inl e, s) f = (Inl e, s)"
  by (simp add: andThen_def)

lemma andThen_weak_cong: "m = m' \<Longrightarrow> andThen m f = andThen m' f"
  by simp

lemma c_str_no_nul: "CHR 0x00 \<notin> set x \<Longrightarrow> c_str x = x"
  by (auto simp: c_str_def takeWhile_eq_all_conv)

lemma c_str_java_this [simp]: "c_str ''__java_this'' = ''__java_this''"
  by (simp add: c_str_def)

lemma below_neq [simp]:
  "(a::nat) < n \<Longrightarrow> (a = n) = False"
  "(a::nat) < n \<Longrightarrow> (a = Suc n) = False"
  "(a::nat) < n \<Longrightarrow> (a = Suc (Suc n)) = False"
  "(a::nat) < n \<Longrightarrow> (a = Suc (Suc (Suc n))) = False"
  "(a::nat) < n \<Longrightarrow> (a = Suc (Suc (Suc (Suc n)))) = False"
  by simp_all

lemmas prim_defs' = duk_push_def duk_push_null_def duk_push_pointer_def duk_pop_def duk_pop_2_def duk_pop_3_def
  duk_get_prop_string_def duk_has_prop_string_def duk_del_prop_string_def put_prop_def duk_put_prop_string_def
  duk_put_prop_heapptr_def duk_push_global_stash_def duk_push_global_object_def duk_get_global_string_def
  duk_push_object_def duk_push_c_function_def duk_require_normalize_index_def duk_set_finalizer_def
  duk_push_heapptr_def duk_get_heapptr_def duk_require_pointer_def duk_get_pointer_def duk_get_string_def
  duk_get_tval_def at_index_def alloc_def new_object_def own_props_def set_props_def

lemmas prim_defs = prim_defs' target_of_def

lemmas jni_defs' = IsSameObject_def NewGlobalRef_def DeleteGlobalRef_def NewWeakGlobalRef_def
  DeleteWeakGlobalRef_def NewObject_def GetObjectClass_def

lemmas jni_defs = jni_defs' deref_def

lemmas pop_defs' = popObject_def popObject_object_def duk_check_type_mask_scalar_def
  duk_is_object_def duk_has_prop_string_trap_def duk_get_prop_string_trap_def
  objectType_pop_def objectType_popArray_def

lemmas trap_defs = duktape_get_def call_frame_def proxy_get_def proxy_has_def fatalErrorHandler_def
  getJNIEnv_def getDuktapeContext_def CallObjectMethod_get_def CallObjectMethod_invoke_def
  checkRethrowDuktapeError_def

lemmas name_defs = JAVA_THIS_PROP_NAME_def JAVA_METHOD_PROP_NAME_def JAVA_VM_PROP_NAME_def
  DUKTAPE_CONTEXT_PROP_NAME_def

lemmas ex_defs = ex_ctx_def install_makeProxy_def DuktapeContext_def ex_host_def ex_objects_def
  ex_method_def ptr_key_def JavaScriptObject_def JavaObject_def plain_hostobj_def boxed_def

lemma deref_frame [simp]:
  "deref (s\<lparr>stack := st\<rparr>) r = deref s r"
  "deref (s\<lparr>heap := hp\<rparr>) r = deref s r"
  "deref (s\<lparr>next_addr := n\<rparr>) r = deref s r"
  "deref (s\<lparr>jobjects := jo\<rparr>) r = deref s r"
  "deref (s\<lparr>next_jobj := n\<rparr>) r = deref s r"
  "deref (s\<lparr>next_gref := n\<rparr>) r = deref s r"
  "deref (s\<lparr>next_wref := n\<rparr>) r = deref s r"
  "deref (s\<lparr>pending := pe\<rparr>) r = deref s r"
  by (simp_all add: deref_def split: jref.splits option.splits)

lemma deref_simps [simp]: "deref s NullRef = None" "deref s (LocalRef x) = Some x"
  by (simp_all add: deref_def)

lemma ordinary_target [simp]: "heap s a = Some obj \<Longrightarrow> is_ordinary (kind obj) \<Longrightarrow> target_of s a = a"
  by (cases "kind obj") (simp_all add: is_ordinary_def target_of_def)

lemma ordinary_proxy_target [simp]:
  "heap s a = Some obj \<Longrightarrow> is_ordinary (kind obj) \<Longrightarrow> proxy_target s a = None"
  by (cases "kind obj") (simp_all add: is_ordinary_def proxy_target_def)

lemma ordinary_not_array [simp]:
  "stack s = VObject a # st \<Longrightarrow> heap s a = Some obj \<Longrightarrow> is_ordinary (kind obj)
     \<Longrightarrow> duk_is_array (-1) s = False"
  by (cases "kind obj") (simp_all add: is_ordinary_def duk_is_array_def tval_top)

lemma factory_installedD:
  assumes "factory_installed s"
  obtains gobj mp mobj where "heap s (global_addr s) = Some gobj" "kind gobj = Plain"
    "global_addr s < next_addr s"
    "map_of (props gobj) ''__makeProxy'' = Some (VObject mp)" "mp < next_addr s"
    "heap s mp = Some mobj" "kind mobj = MakeProxyFn"
  using assms
  by (auto simp: factory_installed_def split: option.splits jsval.splits)


subsection \<open>What pushObject does with a host object\<close>

lemma pushObject_proxy:
  assumes "jobjects s x = Some h" "native h = None"
    "\<not> (isJavaScriptObject h \<and> contextField h = this_context s)"
    "isJavaScriptObject h \<or> isDuktapeObject h"
    "factory_installed s"
  shows "pushObject (LocalRef x) s = (Inr (), after_proxy x s)"
proof -
  from assms(5) obtain gobj mp mobj where g: "heap s (global_addr s) = Some gobj" "kind gobj = Plain"
    "map_of (props gobj) ''__makeProxy'' = Some (VObject mp)" "mp < next_addr s"
    "heap s mp = Some mobj" "kind mobj = MakeProxyFn"
    by (rule factory_installedD)
  show ?thesis
    using assms(1-4) g
    apply (simp add: pushObject_def prim_defs jni_defs ok_def throw_def duk_pcall_with_def call_factory_def
         makeProxy_def queueJavaExceptionForDuktapeError_def after_proxy_def JAVA_THIS_PROP_NAME_def
         eval_nat_numeral)
    apply (auto intro!: dstate.equality simp: fun_eq_iff)
    done
qed

lemma pushObject_wrap:
  assumes "jobjects s x = Some h" "native h = None"
    "\<not> isJavaScriptObject h" "\<not> isDuktapeObject h"
    "factory_installed s"
  shows "pushObject (LocalRef x) s =
           (Inr (), after_proxy (next_jobj s)
                      (s\<lparr>jobjects := (jobjects s)(next_jobj s \<mapsto> JavaObject (Some x)),
                         next_jobj := Suc (next_jobj s),
                         collected := (collected s)(next_jobj s := False)\<rparr>))"
proof -
  from assms(5) obtain gobj mp mobj where g: "heap s (global_addr s) = Some gobj" "kind gobj = Plain"
    "map_of (props gobj) ''__makeProxy'' = Some (VObject mp)" "mp < next_addr s"
    "heap s mp = Some mobj" "kind mobj = MakeProxyFn"
    by (rule factory_installedD)
  show ?thesis
    using assms(1-4) g
    apply (simp add: pushObject_def prim_defs jni_defs ok_def throw_def duk_pcall_with_def call_factory_def
         makeProxy_def queueJavaExceptionForDuktapeError_def after_proxy_def JAVA_THIS_PROP_NAME_def
         eval_nat_numeral)
    apply (auto intro!: dstate.equality simp: fun_eq_iff)
    done
qed

lemma pushObject_own_handle:
  assumes "jobjects s x = Some h" "native h = None" "isJavaScriptObject h"
    "contextField h = this_context s" "heap s (pointerField h) = Some obj"
  shows "pushObject (LocalRef x) s = (Inr (), s\<lparr>stack := VObject (pointerField h) # stack s\<rparr>)"
  using assms
  by (simp add: pushObject_def prim_defs jni_defs ok_def throw_def)

lemma after_proxy_fields [simp]:
  "jobjects (after_proxy y s) = jobjects s" "this_context (after_proxy y s) = this_context s"
  "next_jobj (after_proxy y s) = next_jobj s" "next_addr (after_proxy y s) = next_addr s + 5"
  "next_gref (after_proxy y s) = Suc (next_gref s)"
  "stack (after_proxy y s) = VObject (next_addr s + 4) # stack s"
  by (simp_all add: after_proxy_def)

lemma after_proxy_heap:
  "heap (after_proxy y s) (next_addr s + 4) = Some (new_object (Proxy (next_addr s)))"
  "a < next_addr s \<Longrightarrow> heap (after_proxy y s) a = heap s a"
  "heap (after_proxy y s) (next_addr s) =
     Some \<lparr>kind = Plain,
           props = [(JAVA_THIS_PROP_NAME, VPointer (PJRef (GlobalRef (next_gref s)))),
                    (''__duktape_get'', VObject (next_addr s + 2)),
                    (''__duktape_apply'', VObject (next_addr s + 3))],
           finalizer = VObject (next_addr s + 1)\<rparr>"
  "heap (after_proxy y s) (next_addr s + 2) = Some (new_object (CFunction Fn_duktape_get))"
  "heap (after_proxy y s) (next_addr s + 3) = Some (new_object (CFunction Fn_duktape_apply))"
  by (simp_all add: after_proxy_def)

lemma factory_installed_after_proxy: "factory_installed s \<Longrightarrow> factory_installed (after_proxy y s)"
  by (erule factory_installedD) (simp add: factory_installed_def after_proxy_def)

lemma factory_installed_frame:
  "factory_installed (s\<lparr>jobjects := jo, next_jobj := n, collected := c\<rparr>) = factory_installed s"
  by (auto simp: factory_installed_def split: option.splits jsval.splits)

subsection \<open>The concrete Context\<close>

lemma ex_ctx_facts:
  "this_context ex_ctx = 77" "next_addr ex_ctx = 3" "next_gref ex_ctx = 0" "next_jobj ex_ctx = 5"
  "stack ex_ctx = []" "pending ex_ctx = None" "jobjects ex_ctx = ex_objects"
  by (simp_all add: ex_defs jni_defs prim_defs ok_def)

lemma factory_ex: "factory_installed ex_ctx"
  by (simp add: factory_installed_def ex_defs jni_defs prim_defs ok_def)

lemma ex_handle_facts:
  "jobjects ex_handle 5 = Some (JavaScriptObject 77 3)" "this_context ex_handle = 77"
  "heap ex_handle 3 = Some \<lparr>kind = Plain, props = [(''__java_this'', VPointer (PJRef (WeakRef 1)))],
                             finalizer = VUndefined\<rparr>"
  "stack ex_handle = []" "wrefs ex_handle 1 = Some 5" "collected ex_handle 5 = False"
  "next_wref ex_handle = 2" "next_jobj ex_handle = 6" "stash_addr ex_handle = 1"
  by (simp_all add: ex_handle_def ex_defs jni_defs prim_defs pop_defs' duk_is_array_def proxy_target_def
        is_supported_scalar_def ok_def throw_def cong: andThen_weak_cong)


subsection \<open>Crossings from the host into the engine\<close>

text \<open>
  C1, as amended. \<open>pushObject\<close> keeps no cache from host objects to proxies. A host
  handle that wraps an engine pointer of this Context yields the same engine object at
  both crossings, and nothing is allocated. Every other host object that is not of a
  registered native type gets a new proxy at each crossing: two crossings of the same
  host object leave two different proxies on the stack, each over its own configuration
  object, and two new strong references.
\<close>

theorem pushObject_twice:
  assumes "jobjects s x = Some h" "native h = None" "x < next_jobj s"
  shows "(isJavaScriptObject h \<and> contextField h = this_context s \<and> heap s (pointerField h) \<noteq> None \<longrightarrow>
            (\<exists>s1 s2. pushObject (LocalRef x) s = (Inr (), s1) \<and> pushObject (LocalRef x) s1 = (Inr (), s2)
               \<and> stack s2 = VObject (pointerField h) # VObject (pointerField h) # stack s
               \<and> heap s2 = heap s))
       \<and> (\<not> (isJavaScriptObject h \<and> contextField h = this_context s) \<and> factory_installed s \<longrightarrow>
            (\<exists>s1 s2. pushObject (LocalRef x) s = (Inr (), s1) \<and> pushObject (LocalRef x) s1 = (Inr (), s2)
               \<and> stack s2 = VObject (next_addr s + 9) # VObject (next_addr s + 4) # stack s
               \<and> heap s2 (next_addr s + 4) = Some (new_object (Proxy (next_addr s)))
               \<and> heap s2 (next_addr s + 9) = Some (new_object (Proxy (next_addr s + 5)))
               \<and> next_gref s2 = next_gref s + 2))"
proof (intro conjI impI)
  assume a: "isJavaScriptObject h \<and> contextField h = this_context s \<and> heap s (pointerField h) \<noteq> None"
  then obtain obj where obj: "heap s (pointerField h) = Some obj" by auto
  let ?s1 = "s\<lparr>stack := VObject (pointerField h) # stack s\<rparr>"
  have 1: "pushObject (LocalRef x) s = (Inr (), ?s1)"
    using assms a obj by (intro pushObject_own_handle) auto
  have 2: "pushObject (LocalRef x) ?s1 = (Inr (), ?s1\<lparr>stack := VObject (pointerField h) # stack ?s1\<rparr>)"
    using assms a obj by (intro pushObject_own_handle[where obj=obj]) auto
  show "\<exists>s1 s2. pushObject (LocalRef x) s = (Inr (), s1) \<and> pushObject (LocalRef x) s1 = (Inr (), s2)
               \<and> stack s2 = VObject (pointerField h) # VObject (pointerField h) # stack s
               \<and> heap s2 = heap s"
    using 1 2 by simp
next
  assume a: "\<not> (isJavaScriptObject h \<and> contextField h = this_context s) \<and> factory_installed s"
  show "\<exists>s1 s2. pushObject (LocalRef x) s = (Inr (), s1) \<and> pushObject (LocalRef x) s1 = (Inr (), s2)
               \<and> stack s2 = VObject (next_addr s + 9) # VObject (next_addr s + 4) # stack s
               \<and> heap s2 (next_addr s + 4) = Some (new_object (Proxy (next_addr s)))
               \<and> heap s2 (next_addr s + 9) = Some (new_object (Proxy (next_addr s + 5)))
               \<and> next_gref s2 = next_gref s + 2"
  proof (cases "isJavaScriptObject h \<or> isDuktapeObject h")
    case True
    let ?s1 = "after_proxy x s"
    have 1: "pushObject (LocalRef x) s = (Inr (), ?s1)"
      using assms a True by (intro pushObject_proxy) auto
    have 2: "pushObject (LocalRef x) ?s1 = (Inr (), after_proxy x ?s1)"
      using assms a True by (intro pushObject_proxy factory_installed_after_proxy) auto
    show ?thesis
      using 1 2 by (simp add: after_proxy_heap add.commute) (simp add: after_proxy_def)
  next
    case False
    let ?w = "s\<lparr>jobjects := (jobjects s)(next_jobj s \<mapsto> JavaObject (Some x)),
                 next_jobj := Suc (next_jobj s),
                 collected := (collected s)(next_jobj s := False)\<rparr>"
    let ?s1 = "after_proxy (next_jobj s) ?w"
    let ?w2 = "?s1\<lparr>jobjects := (jobjects ?s1)(next_jobj ?s1 \<mapsto> JavaObject (Some x)),
                 next_jobj := Suc (next_jobj ?s1),
                 collected := (collected ?s1)(next_jobj ?s1 := False)\<rparr>"
    have 1: "pushObject (LocalRef x) s = (Inr (), ?s1)"
      using assms a False by (intro pushObject_wrap) auto
    have f1: "factory_installed ?s1"
      using a by (intro factory_installed_after_proxy) (simp add: factory_installed_frame)
    have 2: "pushObject (LocalRef x) ?s1 = (Inr (), after_proxy (next_jobj ?s1) ?w2)"
      using assms a False f1 by (intro pushObject_wrap) auto
    show ?thesis
      using 1 2 by (simp add: after_proxy_heap add.commute) (simp add: after_proxy_def)
  qed
qed

text \<open>
  The host object 1 implements \<open>DuktapeObject\<close>: its two crossings leave the proxies 7
  and 12. The handle 5 wraps the engine object 3 of this Context: both crossings push 3.
\<close>

theorem pushObject_twice_witness:
  "stack (snd (pushObject (LocalRef 1) (snd (pushObject (LocalRef 1) ex_ctx)))) = [VObject 12, VObject 7]
   \<and> stack (snd (pushObject (LocalRef 5) (snd (pushObject (LocalRef 5) ex_handle)))) = [VObject 3, VObject 3]"
proof -
  have o: "jobjects ex_ctx 1 = Some (plain_hostobj\<lparr>isDuktapeObject := True\<rparr>)"
          "native (plain_hostobj\<lparr>isDuktapeObject := True\<rparr>) = None" "1 < next_jobj ex_ctx"
    by (simp_all add: ex_ctx_facts ex_objects_def plain_hostobj_def)
  have p: "jobjects ex_handle 5 = Some (JavaScriptObject 77 3)" "native (JavaScriptObject 77 3) = None"
          "5 < next_jobj ex_handle"
    by (simp_all add: ex_handle_facts JavaScriptObject_def plain_hostobj_def)
  show ?thesis
    using pushObject_twice[OF o] pushObject_twice[OF p] factory_ex
    by (auto simp: ex_ctx_facts ex_handle_facts JavaScriptObject_def plain_hostobj_def)
qed

text \<open>
  The claim as stated fails: the same host object, pushed twice into the same Context,
  is represented by two different engine objects.
\<close>

theorem pushObject_twice_counterexample:
  "stack (snd (pushObject (LocalRef 1) (snd (pushObject (LocalRef 1) ex_ctx)))) = [VObject 12, VObject 7]"
  by (simp add: pushObject_def duk_pcall_with_def call_factory_def makeProxy_def
        ex_defs prim_defs jni_defs ok_def throw_def name_defs cong: andThen_weak_cong)

text \<open>
  C3. A host handle that wraps an engine heap pointer (a \<open>JavaScriptObject\<close> whose class
  is not a registered native type): pushed into the Context that created it, the stored
  heap pointer is pushed and nothing else changes; pushed into any other Context, the
  stored pointer is not used: a new configuration object holding a new strong reference
  to the handle itself is allocated and the new proxy made from it is what is pushed.
\<close>

theorem pushObject_foreign_or_own_handle:
  assumes "jobjects s x = Some h" "native h = None" "isJavaScriptObject h"
  shows "(contextField h = this_context s \<and> heap s (pointerField h) \<noteq> None \<longrightarrow>
            pushObject (LocalRef x) s = (Inr (), s\<lparr>stack := VObject (pointerField h) # stack s\<rparr>))
       \<and> (contextField h \<noteq> this_context s \<and> factory_installed s \<longrightarrow>
            (\<exists>s'. pushObject (LocalRef x) s = (Inr (), s')
               \<and> stack s' = VObject (next_addr s + 4) # stack s
               \<and> heap s' (next_addr s + 4) = Some (new_object (Proxy (next_addr s)))
               \<and> map_of (own_props s' (next_addr s)) JAVA_THIS_PROP_NAME
                    = Some (VPointer (PJRef (GlobalRef (next_gref s))))
               \<and> deref s' (GlobalRef (next_gref s)) = Some x
               \<and> jobjects s' = jobjects s))"
proof (intro conjI impI)
  assume "contextField h = this_context s \<and> heap s (pointerField h) \<noteq> None"
  then show "pushObject (LocalRef x) s = (Inr (), s\<lparr>stack := VObject (pointerField h) # stack s\<rparr>)"
    using assms by (auto intro: pushObject_own_handle)
next
  assume a: "contextField h \<noteq> this_context s \<and> factory_installed s"
  then have "pushObject (LocalRef x) s = (Inr (), after_proxy x s)"
    using assms by (intro pushObject_proxy) auto
  then show "\<exists>s'. pushObject (LocalRef x) s = (Inr (), s')
               \<and> stack s' = VObject (next_addr s + 4) # stack s
               \<and> heap s' (next_addr s + 4) = Some (new_object (Proxy (next_addr s)))
               \<and> map_of (own_props s' (next_addr s)) JAVA_THIS_PROP_NAME
                    = Some (VPointer (PJRef (GlobalRef (next_gref s))))
               \<and> deref s' (GlobalRef (next_gref s)) = Some x
               \<and> jobjects s' = jobjects s"
    by (simp add: after_proxy_def own_props_def target_of_def deref_def)
qed

text \<open>
  The handle 5 belongs to this Context and wraps the engine object 3; the handle 3
  belongs to the Context 99 and its pointer field is 2, yet what is pushed is the new
  proxy 7 over a strong reference to the handle.
\<close>

theorem pushObject_foreign_or_own_handle_witness:
  "pushObject (LocalRef 5) ex_handle = (Inr (), ex_handle\<lparr>stack := [VObject 3]\<rparr>)
   \<and> stack (snd (pushObject (LocalRef 3) ex_ctx)) = [VObject 7]
   \<and> deref (snd (pushObject (LocalRef 3) ex_ctx)) (GlobalRef 0) = Some 3"
proof -
  have o: "jobjects ex_ctx 3 = Some (JavaScriptObject 99 2)" "native (JavaScriptObject 99 2) = None"
    "isJavaScriptObject (JavaScriptObject 99 2)"
    by (simp_all add: ex_ctx_facts ex_objects_def JavaScriptObject_def plain_hostobj_def)
  have p: "jobjects ex_handle 5 = Some (JavaScriptObject 77 3)" "native (JavaScriptObject 77 3) = None"
    "isJavaScriptObject (JavaScriptObject 77 3)"
    by (simp_all add: ex_handle_facts JavaScriptObject_def plain_hostobj_def)
  show ?thesis
    using pushObject_foreign_or_own_handle[OF o] pushObject_foreign_or_own_handle[OF p] factory_ex
    by (auto simp: ex_ctx_facts ex_handle_facts JavaScriptObject_def plain_hostobj_def)
qed

subsection \<open>Crossings from the engine into the host\<close>

lemma popObject_cached_alive:
  assumes "stack s = VObject a # st" "heap s a = Some obj" "is_ordinary (kind obj)"
    "map_of (props obj) ''__java_this'' = Some (VPointer (PJRef r))" "r \<noteq> NullRef" "deref s r = Some y"
  shows "popObject s = (Inr r, s\<lparr>stack := st\<rparr>)"
  using assms
  by (simp add: pop_defs' is_supported_scalar_def prim_defs' jni_defs' as_jobject_def
        ok_def throw_def Let_def)

lemma popObject_stale:
  assumes "stack s = VObject a # st" "heap s a = Some obj" "is_ordinary (kind obj)"
    "map_of (props obj) ''__java_this'' = Some (VPointer (PJRef (WeakRef w)))"
    "deref s (WeakRef w) = None" "w < next_wref s"
    "heap s (stash_addr s) = Some sobj" "is_ordinary (kind sobj)" "a \<noteq> stash_addr s"
  shows "\<exists>s'. popObject s = (Inr (LocalRef (next_jobj s)), s')
           \<and> stack s' = st
           \<and> wrefs s' w = None
           \<and> jobjects s' (next_jobj s) = Some (JavaScriptObject (this_context s) a)
           \<and> map_of (own_props s' (stash_addr s)) (heapptr_key s a) = Some (VObject a)
           \<and> map_of (own_props s' a) ''__java_this'' = Some (VPointer (PJRef (WeakRef (next_wref s))))
           \<and> deref s' (WeakRef (next_wref s)) = Some (next_jobj s)
           \<and> grefs s' = grefs s"
  using assms
  apply (simp add: pop_defs' is_supported_scalar_def prim_defs' jni_defs' as_jobject_def
        ok_def throw_def Let_def update_conv' delete_conv')
  apply (simp add: deref_def)
  done

lemma popObject_create:
  assumes "stack s = VObject a # st" "heap s a = Some obj" "is_ordinary (kind obj)"
    "map_of (props obj) ''__java_this'' = None"
    "heap s (stash_addr s) = Some sobj" "is_ordinary (kind sobj)" "a \<noteq> stash_addr s"
  shows "\<exists>s'. popObject s = (Inr (LocalRef (next_jobj s)), s')
           \<and> stack s' = st
           \<and> jobjects s' (next_jobj s) = Some (JavaScriptObject (this_context s) a)
           \<and> map_of (own_props s' (stash_addr s)) (heapptr_key s a) = Some (VObject a)
           \<and> map_of (own_props s' a) ''__java_this'' = Some (VPointer (PJRef (WeakRef (next_wref s))))
           \<and> deref s' (WeakRef (next_wref s)) = Some (next_jobj s)
           \<and> grefs s' = grefs s"
  using assms
  apply (simp add: pop_defs' is_supported_scalar_def prim_defs' jni_defs' as_jobject_def
        ok_def throw_def Let_def update_conv' delete_conv')
  apply (simp add: deref_def)
  done

lemma popObject_proxy:
  assumes "stack s1 = VObject p # st" "heap s1 p = Some pobj" "kind pobj = Proxy cfg"
    "heap s1 cfg = Some cobj" "kind cobj = Plain"
    "map_of (props cobj) JAVA_THIS_PROP_NAME = Some (VPointer (PJRef r))"
    "map_of (props cobj) ''__duktape_get'' = Some (VObject g)"
    "heap s1 g = Some gobj" "kind gobj = CFunction Fn_duktape_get"
    "r \<noteq> NullRef" "deref s1 r = Some y"
  shows "popObject s1 = (Inr r, s1\<lparr>stack := st\<rparr>)"
  using assms
  by (simp add: pop_defs' duk_is_array_def proxy_target_def is_supported_scalar_def prim_defs jni_defs'
        as_jobject_def ok_def throw_def Let_def trap_defs)

lemma popObject_after_proxy:
  "popObject (after_proxy y s) = (Inr (GlobalRef (next_gref s)), (after_proxy y s)\<lparr>stack := stack s\<rparr>)"
  by (rule popObject_proxy[where p="next_addr s + 4" and cfg="next_addr s" and g="next_addr s + 2" and y=y
          and pobj="new_object (Proxy (next_addr s))"
          and gobj="new_object (CFunction Fn_duktape_get)"
          and cobj="\<lparr>kind = Plain,
             props = [(JAVA_THIS_PROP_NAME, VPointer (PJRef (GlobalRef (next_gref s)))),
                      (''__duktape_get'', VObject (next_addr s + 2)),
                      (''__duktape_apply'', VObject (next_addr s + 3))],
             finalizer = VObject (next_addr s + 1)\<rparr>"])
     (simp_all add: after_proxy_def new_object_def name_defs deref_def)

lemma round_trip_proxy:
  assumes "jobjects s x = Some h" "native h = None"
    "\<not> (isJavaScriptObject h \<and> contextField h = this_context s)"
    "isJavaScriptObject h \<or> isDuktapeObject h" "factory_installed s"
  shows "round_trip (LocalRef x) s =
           (Inr (GlobalRef (next_gref s)), (after_proxy x s)\<lparr>stack := stack s\<rparr>)"
  using pushObject_proxy[OF assms] by (simp add: round_trip_def popObject_after_proxy)

lemma round_trip_wrap:
  assumes "jobjects s x = Some h" "native h = None"
    "\<not> isJavaScriptObject h" "\<not> isDuktapeObject h" "factory_installed s"
  shows "round_trip (LocalRef x) s =
           (Inr (GlobalRef (next_gref s)),
            (after_proxy (next_jobj s)
               (s\<lparr>jobjects := (jobjects s)(next_jobj s \<mapsto> JavaObject (Some x)),
                  next_jobj := Suc (next_jobj s),
                  collected := (collected s)(next_jobj s := False)\<rparr>))\<lparr>stack := stack s\<rparr>)"
  using pushObject_wrap[OF assms] by (simp add: round_trip_def popObject_after_proxy)

lemma round_trip_own_handle:
  assumes "jobjects s x = Some h" "native h = None" "isJavaScriptObject h"
    "contextField h = this_context s" "heap s (pointerField h) = Some obj" "is_ordinary (kind obj)"
    "map_of (props obj) ''__java_this'' = Some (VPointer (PJRef r))" "deref s r = Some x"
  shows "round_trip (LocalRef x) s = (Inr r, s)"
proof -
  let ?s1 = "s\<lparr>stack := VObject (pointerField h) # stack s\<rparr>"
  have r: "r \<noteq> NullRef" using assms(8) by (auto simp: deref_def)
  have "popObject ?s1 = (Inr r, ?s1\<lparr>stack := stack s\<rparr>)"
    by (rule popObject_cached_alive[where a = "pointerField h" and obj = obj and y = x])
       (simp_all add: assms r)
  then show ?thesis
    by (simp add: round_trip_def pushObject_own_handle[OF assms(1-5)])
qed

lemma round_trip_lost_handle:
  assumes "jobjects s x = Some h" "native h = None" "isJavaScriptObject h"
    "contextField h = this_context s" "heap s (pointerField h) = Some obj" "is_ordinary (kind obj)"
    "map_of (props obj) ''__java_this'' = None"
    "heap s (stash_addr s) = Some sobj" "is_ordinary (kind sobj)" "pointerField h \<noteq> stash_addr s"
  shows "\<exists>s'. round_trip (LocalRef x) s = (Inr (LocalRef (next_jobj s)), s')
           \<and> jobjects s' (next_jobj s) = Some (JavaScriptObject (this_context s) (pointerField h))
           \<and> stack s' = stack s"
proof -
  let ?s1 = "s\<lparr>stack := VObject (pointerField h) # stack s\<rparr>"
  have "\<exists>s'. popObject ?s1 = (Inr (LocalRef (next_jobj ?s1)), s')
           \<and> stack s' = stack s
           \<and> jobjects s' (next_jobj ?s1) = Some (JavaScriptObject (this_context ?s1) (pointerField h))
           \<and> map_of (own_props s' (stash_addr ?s1)) (heapptr_key ?s1 (pointerField h)) = Some (VObject (pointerField h))
           \<and> map_of (own_props s' (pointerField h)) ''__java_this'' = Some (VPointer (PJRef (WeakRef (next_wref ?s1))))
           \<and> deref s' (WeakRef (next_wref ?s1)) = Some (next_jobj ?s1)
           \<and> grefs s' = grefs ?s1"
    by (rule popObject_create[where obj = obj and sobj = sobj]) (simp_all add: assms)
  then show ?thesis
    by (auto simp: round_trip_def pushObject_own_handle[OF assms(1-5)])
qed

lemma round_trip_native:
  assumes "jobjects s x = Some h" "native h = Some v" "is_supported_scalar v"
  shows "round_trip (LocalRef x) s = objectType_pop (s\<lparr>stack := v # stack s\<rparr>)"
  using assms
  by (simp add: round_trip_def pushObject_def popObject_def duk_check_type_mask_scalar_def
        prim_defs' jni_defs ok_def)

text \<open>
  C2, as amended. A host object X pushed with \<open>pushObject\<close> and popped back at once with
  \<open>popObject\<close> comes back as X itself in two cases. When X implements \<open>DuktapeObject\<close> or
  is a handle of another Context (and \<open>__makeProxy\<close> is installed), the result is a new
  strong reference to X and the stack is as before. When X is a handle of this Context
  whose engine object still carries the weak reference to X, the result is that weak
  reference and the whole state is as before. A plain host object does not come back as
  itself: the result is a strong reference to the new \<open>JavaObject\<close> adapter that
  \<open>pushObject\<close> wrapped around X. A handle of this Context whose engine object has no
  property \<open>__java_this\<close> does not come back as itself either: the result is a new
  handle of the same engine object. An object of a registered native type that is
  pushed as a boolean, number or string crosses by value: what comes back is what the
  scalar marshaller builds from the pushed value, whichever object was pushed.
\<close>

theorem round_trip_identity:
  assumes "jobjects s x = Some h" "x < next_jobj s"
  shows "(native h = None \<and> \<not> (isJavaScriptObject h \<and> contextField h = this_context s)
            \<and> (isJavaScriptObject h \<or> isDuktapeObject h) \<and> factory_installed s \<longrightarrow>
            (\<exists>s'. round_trip (LocalRef x) s = (Inr (GlobalRef (next_gref s)), s')
               \<and> grefs s' (next_gref s) = Some x
               \<and> IsSameObject s' (GlobalRef (next_gref s)) (LocalRef x) \<and> stack s' = stack s))
       \<and> (native h = None \<and> isJavaScriptObject h \<and> contextField h = this_context s
            \<and> heap s (pointerField h) = Some obj \<and> is_ordinary (kind obj)
            \<and> map_of (props obj) ''__java_this'' = Some (VPointer (PJRef r)) \<and> deref s r = Some x \<longrightarrow>
            round_trip (LocalRef x) s = (Inr r, s) \<and> IsSameObject s r (LocalRef x))
       \<and> (native h = None \<and> \<not> isJavaScriptObject h \<and> \<not> isDuktapeObject h \<and> factory_installed s \<longrightarrow>
            (\<exists>s'. round_trip (LocalRef x) s = (Inr (GlobalRef (next_gref s)), s')
               \<and> grefs s' (next_gref s) = Some (next_jobj s)
               \<and> jobjects s' (next_jobj s) = Some (JavaObject (Some x))
               \<and> \<not> IsSameObject s' (GlobalRef (next_gref s)) (LocalRef x)
               \<and> stack s' = stack s))
       \<and> (native h = None \<and> isJavaScriptObject h \<and> contextField h = this_context s
            \<and> heap s (pointerField h) = Some obj \<and> is_ordinary (kind obj)
            \<and> map_of (props obj) ''__java_this'' = None
            \<and> heap s (stash_addr s) = Some sobj \<and> is_ordinary (kind sobj)
            \<and> pointerField h \<noteq> stash_addr s \<longrightarrow>
            (\<exists>s'. round_trip (LocalRef x) s = (Inr (LocalRef (next_jobj s)), s')
               \<and> jobjects s' (next_jobj s) = Some (JavaScriptObject (this_context s) (pointerField h))
               \<and> \<not> IsSameObject s' (LocalRef (next_jobj s)) (LocalRef x)
               \<and> stack s' = stack s))
       \<and> (native h = Some v \<and> is_supported_scalar v \<longrightarrow>
            round_trip (LocalRef x) s = objectType_pop (s\<lparr>stack := v # stack s\<rparr>))"
proof (intro conjI impI; elim conjE)
  assume a: "native h = None" "\<not> (isJavaScriptObject h \<and> contextField h = this_context s)"
    "isJavaScriptObject h \<or> isDuktapeObject h" "factory_installed s"
  show "\<exists>s'. round_trip (LocalRef x) s = (Inr (GlobalRef (next_gref s)), s')
               \<and> grefs s' (next_gref s) = Some x
               \<and> IsSameObject s' (GlobalRef (next_gref s)) (LocalRef x) \<and> stack s' = stack s"
    using round_trip_proxy[OF assms(1) a]
    by (simp add: IsSameObject_def) (simp add: after_proxy_def deref_def)
next
  assume a: "native h = None" "isJavaScriptObject h" "contextField h = this_context s"
    "heap s (pointerField h) = Some obj" "is_ordinary (kind obj)"
    "map_of (props obj) ''__java_this'' = Some (VPointer (PJRef r))" "deref s r = Some x"
  show "round_trip (LocalRef x) s = (Inr r, s)"
    by (rule round_trip_own_handle[OF assms(1) a])
  show "IsSameObject s r (LocalRef x)"
    using a(7) by (simp add: IsSameObject_def deref_def)
next
  assume a: "native h = None" "\<not> isJavaScriptObject h" "\<not> isDuktapeObject h" "factory_installed s"
  show "\<exists>s'. round_trip (LocalRef x) s = (Inr (GlobalRef (next_gref s)), s')
               \<and> grefs s' (next_gref s) = Some (next_jobj s)
               \<and> jobjects s' (next_jobj s) = Some (JavaObject (Some x))
               \<and> \<not> IsSameObject s' (GlobalRef (next_gref s)) (LocalRef x)
               \<and> stack s' = stack s"
    using round_trip_wrap[OF assms(1) a] assms(2)
    by (simp add: IsSameObject_def) (auto simp: after_proxy_def deref_def)
next
  assume a: "native h = None" "isJavaScriptObject h" "contextField h = this_context s"
    "heap s (pointerField h) = Some obj" "is_ordinary (kind obj)"
    "map_of (props obj) ''__java_this'' = None"
    "heap s (stash_addr s) = Some sobj" "is_ordinary (kind sobj)" "pointerField h \<noteq> stash_addr s"
  show "\<exists>s'. round_trip (LocalRef x) s = (Inr (LocalRef (next_jobj s)), s')
               \<and> jobjects s' (next_jobj s) = Some (JavaScriptObject (this_context s) (pointerField h))
               \<and> \<not> IsSameObject s' (LocalRef (next_jobj s)) (LocalRef x)
               \<and> stack s' = stack s"
    using round_trip_lost_handle[OF assms(1) a] assms(2)
    by (auto simp: IsSameObject_def deref_def)
next
  assume "native h = Some v" "is_supported_scalar v"
  then show "round_trip (LocalRef x) s = objectType_pop (s\<lparr>stack := v # stack s\<rparr>)"
    by (rule round_trip_native[OF assms(1)])
qed

text \<open>
  In the example the host object 1 implements \<open>DuktapeObject\<close> and comes back as itself;
  the handle 5 of the engine object 3 comes back as itself through its weak reference
  and nothing changes; the plain host object 2 comes back as the adapter 5; the handle 5
  comes back as the new handle 6 once the engine object has lost its property; the boxed
  string 4 goes through the scalar marshaller.
\<close>

theorem round_trip_identity_witness:
  "fst (round_trip (LocalRef 1) ex_ctx) = Inr (GlobalRef 0)
   \<and> IsSameObject (snd (round_trip (LocalRef 1) ex_ctx)) (GlobalRef 0) (LocalRef 1)
   \<and> round_trip (LocalRef 5) ex_handle = (Inr (WeakRef 1), ex_handle)
   \<and> IsSameObject ex_handle (WeakRef 1) (LocalRef 5)
   \<and> deref (snd (round_trip (LocalRef 2) ex_ctx)) (GlobalRef 0) = Some 5
   \<and> \<not> IsSameObject (snd (round_trip (LocalRef 2) ex_ctx)) (GlobalRef 0) (LocalRef 2)
   \<and> fst (round_trip (LocalRef 5) ex_handle_lost) = Inr (LocalRef 6)
   \<and> round_trip (LocalRef 4) ex_ctx = objectType_pop (ex_ctx\<lparr>stack := [VString ''m'']\<rparr>)"
proof -
  let ?lost = "\<lparr>kind = Plain, props = [], finalizer = VUndefined\<rparr>"
  have lf: "jobjects ex_handle_lost 5 = Some (JavaScriptObject 77 3)" "next_jobj ex_handle_lost = 6"
    "this_context ex_handle_lost = 77" "heap ex_handle_lost 3 = Some ?lost"
    "stash_addr ex_handle_lost = Suc 0"
    by (simp_all add: ex_handle_lost_def ex_handle_def ex_defs jni_defs prim_defs pop_defs'
          duk_is_array_def proxy_target_def is_supported_scalar_def ok_def throw_def delete_conv'
          cong: andThen_weak_cong)
  obtain sobj where sobj: "heap ex_handle_lost (Suc 0) = Some sobj" "is_ordinary (kind sobj)"
    by (simp add: ex_handle_lost_def ex_handle_def ex_defs jni_defs prim_defs pop_defs' duk_is_array_def
          proxy_target_def is_supported_scalar_def is_ordinary_def ok_def throw_def delete_conv'
          cong: andThen_weak_cong)
  have l: "jobjects ex_handle_lost 5 = Some (JavaScriptObject 77 3)" "5 < next_jobj ex_handle_lost"
    by (simp_all add: lf)
  have l': "native (JavaScriptObject 77 3) = None \<and> isJavaScriptObject (JavaScriptObject 77 3)
             \<and> contextField (JavaScriptObject 77 3) = this_context ex_handle_lost
             \<and> heap ex_handle_lost (pointerField (JavaScriptObject 77 3)) = Some ?lost
             \<and> is_ordinary (kind ?lost) \<and> map_of (props ?lost) ''__java_this'' = None
             \<and> heap ex_handle_lost (stash_addr ex_handle_lost) = Some sobj \<and> is_ordinary (kind sobj)
             \<and> pointerField (JavaScriptObject 77 3) \<noteq> stash_addr ex_handle_lost"
    using sobj by (simp add: lf JavaScriptObject_def plain_hostobj_def is_ordinary_def)
  have e3: "fst (round_trip (LocalRef 5) ex_handle_lost) = Inr (LocalRef 6)"
    using round_trip_identity[where obj = ?lost and sobj = sobj and r = NullRef and v = VNull, OF l] l' lf(2)
    by auto
  let ?d = "plain_hostobj\<lparr>isDuktapeObject := True\<rparr>"
  let ?obj = "\<lparr>kind = Plain, props = [(''__java_this'', VPointer (PJRef (WeakRef 1)))],
               finalizer = VUndefined\<rparr>"
  have o: "jobjects ex_ctx 1 = Some ?d" "1 < next_jobj ex_ctx"
    by (simp_all add: ex_ctx_facts ex_objects_def)
  have o': "native ?d = None \<and> \<not> (isJavaScriptObject ?d \<and> contextField ?d = this_context ex_ctx)
             \<and> (isJavaScriptObject ?d \<or> isDuktapeObject ?d) \<and> factory_installed ex_ctx"
    using factory_ex by (simp add: plain_hostobj_def)
  have p: "jobjects ex_ctx 2 = Some plain_hostobj" "2 < next_jobj ex_ctx"
    by (simp_all add: ex_ctx_facts ex_objects_def)
  have p': "native plain_hostobj = None \<and> \<not> isJavaScriptObject plain_hostobj
             \<and> \<not> isDuktapeObject plain_hostobj \<and> factory_installed ex_ctx"
    using factory_ex by (simp add: plain_hostobj_def)
  have q: "jobjects ex_handle 5 = Some (JavaScriptObject 77 3)" "5 < next_jobj ex_handle"
    by (simp_all add: ex_handle_facts)
  have q': "native (JavaScriptObject 77 3) = None \<and> isJavaScriptObject (JavaScriptObject 77 3)
             \<and> contextField (JavaScriptObject 77 3) = this_context ex_handle
             \<and> heap ex_handle (pointerField (JavaScriptObject 77 3)) = Some ?obj
             \<and> is_ordinary (kind ?obj)
             \<and> map_of (props ?obj) ''__java_this'' = Some (VPointer (PJRef (WeakRef 1)))
             \<and> deref ex_handle (WeakRef 1) = Some 5"
    using ex_handle_facts
    by (simp add: JavaScriptObject_def plain_hostobj_def is_ordinary_def deref_def)
  have n: "jobjects ex_ctx 4 = Some (boxed (VString ''m''))" "4 < next_jobj ex_ctx"
    by (simp_all add: ex_ctx_facts ex_objects_def)
  have n': "native (boxed (VString ''m'')) = Some (VString ''m'') \<and> is_supported_scalar (VString ''m'')"
    by (simp add: boxed_def plain_hostobj_def is_supported_scalar_def)
  have e1: "round_trip (LocalRef 1) ex_ctx = (Inr (GlobalRef 0), (after_proxy 1 ex_ctx)\<lparr>stack := []\<rparr>)"
    using round_trip_proxy[OF o(1)] o' by (simp add: ex_ctx_facts)
  have e2: "round_trip (LocalRef 2) ex_ctx =
           (Inr (GlobalRef 0),
            (after_proxy 5
               (ex_ctx\<lparr>jobjects := (jobjects ex_ctx)(5 \<mapsto> JavaObject (Some 2)),
                  next_jobj := 6, collected := (collected ex_ctx)(5 := False)\<rparr>))\<lparr>stack := []\<rparr>)"
    using round_trip_wrap[OF p(1)] p' by (simp add: ex_ctx_facts)
  show ?thesis
    using round_trip_identity[where obj = ?obj and sobj = ?obj and r = "WeakRef 1" and v = VNull, OF o] o'
          round_trip_identity[where obj = ?obj and sobj = ?obj and r = "WeakRef 1" and v = VNull, OF p] p'
          round_trip_identity[where obj = ?obj and sobj = ?obj and r = "WeakRef 1" and v = VNull, OF q] q'
          round_trip_identity[where obj = ?obj and sobj = ?obj and r = "WeakRef 1" and v = "VString ''m''", OF n] n'
    unfolding e1 e2 e3
    by (simp add: ex_ctx_facts IsSameObject_def after_proxy_def deref_def)
qed

text \<open>
  The claim as stated fails for a plain host object: the plain host object 2, pushed and
  popped back at once, comes back as a reference to another object. It also fails for a
  handle of this Context whose engine object no longer carries the weak reference: the
  handle 5 comes back as the new handle 6.
\<close>

theorem round_trip_identity_counterexample:
  "fst (round_trip (LocalRef 2) ex_ctx) = Inr (GlobalRef 0)
   \<and> \<not> IsSameObject (snd (round_trip (LocalRef 2) ex_ctx)) (GlobalRef 0) (LocalRef 2)
   \<and> fst (round_trip (LocalRef 5) ex_handle_lost) = Inr (LocalRef 6)
   \<and> \<not> IsSameObject (snd (round_trip (LocalRef 5) ex_handle_lost)) (LocalRef 6) (LocalRef 5)"
proof -
  have p: "jobjects ex_ctx 2 = Some plain_hostobj" "native plain_hostobj = None"
          "\<not> isJavaScriptObject plain_hostobj" "\<not> isDuktapeObject plain_hostobj"
    by (simp_all add: ex_ctx_facts ex_objects_def plain_hostobj_def)
  have 1: "fst (round_trip (LocalRef 2) ex_ctx) = Inr (GlobalRef 0)
   \<and> \<not> IsSameObject (snd (round_trip (LocalRef 2) ex_ctx)) (GlobalRef 0) (LocalRef 2)"
    unfolding round_trip_wrap[OF p factory_ex]
    by (simp add: IsSameObject_def ex_ctx_facts after_proxy_def deref_def)
  have 2: "fst (round_trip (LocalRef 5) ex_handle_lost) = Inr (LocalRef 6)"
    by (simp add: round_trip_def ex_handle_lost_def ex_handle_def pushObject_def pop_defs'
          duk_is_array_def proxy_target_def is_supported_scalar_def ex_defs
          prim_defs jni_defs ok_def throw_def delete_conv' cong: andThen_weak_cong)
  have 3: "\<not> IsSameObject s (LocalRef 6) (LocalRef 5)" for s
    by (simp add: IsSameObject_def deref_def)
  from 1 2 3 show ?thesis by simp
qed

text \<open>
  C7. \<open>popObject\<close> classifies the value on top of the stack in this order: a boolean,
  number or string goes to the scalar marshaller; an array goes to the array marshaller,
  although it is an object; any other object takes the object branch; every other value
  (undefined, null, pointer, buffer, lightfunc) is popped, the result is null, nothing
  else changes and no error is raised.
\<close>

theorem popObject_classification:
  assumes "stack s = v # st"
  shows "(is_supported_scalar v \<longrightarrow> popObject s = objectType_pop s)
       \<and> ((\<exists>a obj xs. v = VObject a \<and> heap s a = Some obj \<and> kind obj = Array xs)
             \<longrightarrow> popObject s = objectType_popArray s)
       \<and> ((\<exists>a. v = VObject a \<and> \<not> duk_is_array (-1) s) \<longrightarrow> popObject s = popObject_object s)
       \<and> (\<not> is_supported_scalar v \<and> (\<forall>a. v \<noteq> VObject a)
             \<longrightarrow> popObject s = (Inr NullRef, s\<lparr>stack := st\<rparr>))"
  using assms
  by (auto simp: popObject_def duk_check_type_mask_scalar_def duk_is_array_def duk_is_object_def
        tval_top is_supported_scalar_def duk_pop_def ok_def split: jsval.splits)

theorem popObject_classification_witness:
  "popObject (ex_ctx\<lparr>stack := [VUndefined]\<rparr>) = (Inr NullRef, ex_ctx\<lparr>stack := []\<rparr>)
   \<and> popObject (ex_ctx\<lparr>stack := [VPointer PNull, VNull]\<rparr>) = (Inr NullRef, ex_ctx\<lparr>stack := [VNull]\<rparr>)
   \<and> fst (popObject (ex_ctx\<lparr>stack := [VString ''a'']\<rparr>)) = Inr (LocalRef 5)"
  using popObject_classification[of "ex_ctx\<lparr>stack := [VUndefined]\<rparr>" VUndefined "[]"]
        popObject_classification[of "ex_ctx\<lparr>stack := [VPointer PNull, VNull]\<rparr>" "VPointer PNull" "[VNull]"]
        popObject_classification[of "ex_ctx\<lparr>stack := [VString ''a'']\<rparr>" "VString ''a''" "[]"]
  by (simp add: is_supported_scalar_def objectType_pop_def NewObject_def ok_def ex_ctx_facts)

text \<open>
  C8. An ordinary engine object on top of the stack, other than the stash itself, popped
  to the host. If it carries a cached host handle whose referent is alive, that handle
  is returned and only the stack changes. If the cached weak handle's referent has been
  collected, the weak reference is deleted and the identity property replaced. In that
  case and when there is no cached handle, a new handle carrying this Context and the
  heap pointer is created, the object is stored in the global stash under the key of its
  heap pointer, a weak reference to the new handle is stored on the object, and no strong
  host reference is created.
\<close>

theorem popObject_handle_cache:
  assumes "stack s = VObject a # st" "heap s a = Some obj" "is_ordinary (kind obj)"
    "heap s (stash_addr s) = Some sobj" "is_ordinary (kind sobj)" "a \<noteq> stash_addr s"
  shows "(map_of (props obj) ''__java_this'' = Some (VPointer (PJRef r)) \<and> r \<noteq> NullRef
            \<and> deref s r = Some y \<longrightarrow> popObject s = (Inr r, s\<lparr>stack := st\<rparr>))
       \<and> (map_of (props obj) ''__java_this'' = Some (VPointer (PJRef (WeakRef w)))
            \<and> deref s (WeakRef w) = None \<and> w < next_wref s \<longrightarrow>
            (\<exists>s'. popObject s = (Inr (LocalRef (next_jobj s)), s')
               \<and> stack s' = st
               \<and> wrefs s' w = None
               \<and> jobjects s' (next_jobj s) = Some (JavaScriptObject (this_context s) a)
               \<and> map_of (own_props s' (stash_addr s)) (heapptr_key s a) = Some (VObject a)
               \<and> map_of (own_props s' a) ''__java_this'' = Some (VPointer (PJRef (WeakRef (next_wref s))))
               \<and> deref s' (WeakRef (next_wref s)) = Some (next_jobj s)
               \<and> grefs s' = grefs s))
       \<and> (map_of (props obj) ''__java_this'' = None \<longrightarrow>
            (\<exists>s'. popObject s = (Inr (LocalRef (next_jobj s)), s')
               \<and> stack s' = st
               \<and> jobjects s' (next_jobj s) = Some (JavaScriptObject (this_context s) a)
               \<and> map_of (own_props s' (stash_addr s)) (heapptr_key s a) = Some (VObject a)
               \<and> map_of (own_props s' a) ''__java_this'' = Some (VPointer (PJRef (WeakRef (next_wref s))))
               \<and> deref s' (WeakRef (next_wref s)) = Some (next_jobj s)
               \<and> grefs s' = grefs s))"
  using assms
  by (intro conjI impI)
     (auto intro: popObject_cached_alive popObject_stale[where sobj=sobj] popObject_create[where sobj=sobj])


text \<open>
  The engine object 3 caches the weak handle 1 of the host handle 5. While 5 is alive the
  cached handle is returned; once 5 is collected a new handle 6 is created and the weak
  reference 1 is deleted; a new object without a cached handle gets the handle 5.
\<close>

theorem popObject_handle_cache_witness:
  "popObject (ex_handle\<lparr>stack := [VObject 3]\<rparr>) = (Inr (WeakRef 1), ex_handle\<lparr>stack := []\<rparr>)
   \<and> fst (popObject (ex_handle\<lparr>stack := [VObject 3], collected := (\<lambda>x. x = 5)\<rparr>)) = Inr (LocalRef 6)
   \<and> wrefs (snd (popObject (ex_handle\<lparr>stack := [VObject 3], collected := (\<lambda>x. x = 5)\<rparr>))) 1 = None
   \<and> fst (popObject (snd (duk_push_object ex_ctx))) = Inr (LocalRef 5)"
proof -
  obtain sobj where sobj: "heap ex_handle 1 = Some sobj" "is_ordinary (kind sobj)"
    by (simp add: ex_handle_def ex_defs jni_defs prim_defs pop_defs' duk_is_array_def proxy_target_def
          is_supported_scalar_def is_ordinary_def ok_def throw_def cong: andThen_weak_cong)
  let ?obj = "\<lparr>kind = Plain, props = [(''__java_this'', VPointer (PJRef (WeakRef 1)))],
               finalizer = VUndefined\<rparr>"
  let ?s = "ex_handle\<lparr>stack := [VObject 3]\<rparr>"
  let ?t = "ex_handle\<lparr>stack := [VObject 3], collected := (\<lambda>x. x = 5)\<rparr>"
  let ?u = "snd (duk_push_object ex_ctx)"
  let ?stash = "\<lparr>kind = Plain,
              props = [(JAVA_VM_PROP_NAME, VPointer PJavaVM),
                       (DUKTAPE_CONTEXT_PROP_NAME, VPointer (PContext 77))], finalizer = VUndefined\<rparr>"
  have a: "stack ?s = VObject 3 # []" "heap ?s 3 = Some ?obj" "is_ordinary (kind ?obj)"
          "heap ?s (stash_addr ?s) = Some sobj" "3 \<noteq> stash_addr ?s"
    using sobj ex_handle_facts by (simp_all add: is_ordinary_def)
  have a': "map_of (props ?obj) ''__java_this'' = Some (VPointer (PJRef (WeakRef 1)))
            \<and> WeakRef 1 \<noteq> NullRef \<and> deref ?s (WeakRef 1) = Some 5"
    using ex_handle_facts by (simp add: deref_def)
  have b: "stack ?t = VObject 3 # []" "heap ?t 3 = Some ?obj" "is_ordinary (kind ?obj)"
          "heap ?t (stash_addr ?t) = Some sobj" "3 \<noteq> stash_addr ?t"
    using sobj ex_handle_facts by (simp_all add: is_ordinary_def)
  have b': "map_of (props ?obj) ''__java_this'' = Some (VPointer (PJRef (WeakRef 1)))
            \<and> deref ?t (WeakRef 1) = None \<and> 1 < next_wref ?t" "next_jobj ?t = 6"
    using ex_handle_facts by (simp_all add: deref_def)
  have c: "stack ?u = VObject 3 # []" "heap ?u 3 = Some (new_object Plain)"
          "is_ordinary (kind (new_object Plain))"
          "heap ?u (stash_addr ?u) = Some ?stash" "is_ordinary (kind ?stash)"
          "3 \<noteq> stash_addr ?u"
    by (simp_all add: ex_defs jni_defs prim_defs is_ordinary_def ok_def)
  have c': "map_of (props (new_object Plain)) ''__java_this'' = None" "next_jobj ?u = 5"
    by (simp_all add: ex_defs jni_defs prim_defs ok_def)
  have 1: "popObject ?s = (Inr (WeakRef 1), ?s\<lparr>stack := []\<rparr>)"
    using popObject_handle_cache[OF a(1-4) sobj(2) a(5), of "WeakRef 1" 5 0] a' by blast
  have 2: "\<exists>s'. popObject ?t = (Inr (LocalRef 6), s') \<and> wrefs s' 1 = None"
    using popObject_handle_cache[OF b(1-4) sobj(2) b(5), of NullRef 0 1] b' by auto
  have 3: "\<exists>s'. popObject ?u = (Inr (LocalRef 5), s')"
    using popObject_handle_cache[OF c, of NullRef 0 0] c' by auto
  from 1 2 3 show ?thesis by auto
qed

subsection \<open>Binding a global\<close>

text \<open>
  C5. When the name is already a property of the global object, \<open>set\<close> reports an
  \<open>IllegalArgumentException\<close> naming it to the host and returns; nothing else changes:
  the engine heap (and so the existing global and the object bound to it), the stack and
  the host references are as before, whatever object and methods were to be bound.
\<close>

theorem set_duplicate_global:
  assumes "heap s (global_addr s) = Some gobj" "is_ordinary (kind gobj)"
    "map_of (props gobj) name = Some v"
  shows "DuktapeContext_set name object methods s =
           (Inr (), s\<lparr>pending := Some (IllegalArgumentException
                                        (''A global object called '' @ name @ '' already exists''))\<rparr>)"
  using assms
  by (simp add: DuktapeContext_set_def prim_defs' queueIllegalArgumentException_def ok_def throw_def)

lemma ex_bound_facts:
  "heap ex_bound 3 = Some \<lparr>kind = Plain,
      props = [(''run'', VObject 5), (JAVA_THIS_PROP_NAME, VPointer (PJRef (GlobalRef 0)))],
      finalizer = VObject 4\<rparr>"
  "heap ex_bound 0 = Some \<lparr>kind = Plain,
      props = [(''__makeProxy'', VObject 2), (''svc'', VObject 3)], finalizer = VUndefined\<rparr>"
  "heap ex_bound (Suc 0) = Some \<lparr>kind = Plain,
      props = [(JAVA_VM_PROP_NAME, VPointer PJavaVM),
               (DUKTAPE_CONTEXT_PROP_NAME, VPointer (PContext 77))], finalizer = VUndefined\<rparr>"
  "stack ex_bound = []" "released ex_bound = []" "destroyed ex_bound = []" "pending ex_bound = None"
  "global_addr ex_bound = 0" "stash_addr ex_bound = Suc 0" "this_context ex_bound = 77"
  "grefs ex_bound 0 = Some 2" "jobjects ex_bound = ex_objects" "next_addr ex_bound = 6"
  "ndebug ex_bound" "next_jobj ex_bound = 5"
  by (simp_all add: ex_bound_def DuktapeContext_set_def ex_defs prim_defs jni_defs ok_def throw_def
         name_defs cong: andThen_weak_cong)

text \<open>
  The global \<open>svc\<close> is bound to the host object 2. Binding the host object 1 under the
  same name fails, and \<open>svc\<close> still is the engine object 3, which still refers to 2.
\<close>

theorem set_duplicate_global_witness:
  "DuktapeContext_set ''svc'' (LocalRef 1) [ex_method] ex_bound =
     (Inr (), ex_bound\<lparr>pending := Some (IllegalArgumentException
                                          ''A global object called svc already exists'')\<rparr>)
   \<and> map_of (own_props ex_bound 0) ''svc'' = Some (VObject 3)
   \<and> map_of (own_props ex_bound 3) JAVA_THIS_PROP_NAME = Some (VPointer (PJRef (GlobalRef 0)))
   \<and> deref ex_bound (GlobalRef 0) = Some 2"
  using set_duplicate_global[of ex_bound _ "''svc''" "VObject 3" "LocalRef 1" "[ex_method]"]
  by (simp add: ex_bound_facts is_ordinary_def own_props_def target_of_def deref_def name_defs)


subsection \<open>The traps\<close>



lemma duktape_apply_host_raises:
  assumes "apply_unpack s = (Inr (javaArgs, javaThis, p), s1)" "as_jobject p = Some r"
    "deref s1 r = Some x" "jobjects s1 x = Some h" "isDuktapeObject h"
    "host_invoke s1 x javaThis javaArgs = Inl e"
  shows "duktape_apply s = (Inr DUK_RET_ERROR, s1\<lparr>pending := Some e\<rparr>)"
  using assms
  by (simp add: duktape_apply_def trap_defs jni_defs' ok_def throw_def)

lemma duk_pcall_with_False:
  assumes "duk_pcall_with run this n s = (Inr False, s')"
  shows "\<exists>e m. stack s' = VObject e # drop (Suc n) (stack s) \<and> heap s' e = Some (new_object (ErrorObj m))"
  using assms
  by (auto simp: duk_pcall_with_def ok_def throw_def alloc_def
           split: if_splits prod.splits sum.splits error.splits)

lemma call_failed:
  assumes "pushObject_ptr q s = (Inr (), s1)" "push_args args s1 = (Inr n, s2)"
    "duk_pcall n s2 = (Inr False, s3)"
  shows "\<exists>m. call q args s =
           (Inr NullRef, s3\<lparr>stack := drop (Suc n) (stack s2), pending := Some (DuktapeException m)\<rparr>)"
proof -
  from assms(3) obtain e m where "stack s3 = VObject e # drop (Suc n) (stack s2)"
      "heap s3 e = Some (new_object (ErrorObj m))"
    unfolding duk_pcall_def by (blast dest: duk_pcall_with_False)
  with assms show ?thesis
    by (intro exI[of _ m])
       (simp add: call_def queueJavaExceptionForDuktapeError_def error_message_def new_object_def ok_def)
qed

lemma callProperty_failed:
  assumes "pushObject_ptr q s = (Inr (), s1)" "duk_normalize_index (-1) s1 = Some idx"
    "pushObject property s1 = (Inr (), s1')" "push_args args s1' = (Inr n, s2)"
    "duk_pcall_prop idx n s2 = (Inr False, s3)" "Suc n < length (stack s2)"
  shows "\<exists>m. callProperty q property args s =
           (Inr NullRef, s3\<lparr>stack := drop (Suc (Suc n)) (stack s2), pending := Some (DuktapeException m)\<rparr>)"
proof -
  from assms(5) obtain e m where e: "stack s3 = VObject e # drop (Suc n) (stack s2)"
      "heap s3 e = Some (new_object (ErrorObj m))"
    unfolding duk_pcall_prop_def
    by (auto dest: duk_pcall_with_False split: option.splits simp: throw_def)
  from assms(6) obtain w where w: "drop (Suc n) (stack s2) = w # drop (Suc (Suc n)) (stack s2)"
    by (metis Cons_nth_drop_Suc)
  from assms e w show ?thesis
    by (intro exI[of _ m])
       (simp add: callProperty_def queueJavaExceptionForDuktapeError_def duk_pop_def error_message_def
          new_object_def ok_def)
qed






lemma call_on_proxy_failed:
  assumes "pushObject_ptr q s = (Inr (), s1)" "push_args args s1 = (Inr n, s2)"
    "n < length (stack s2)" "stack s2 ! n = VObject q'"
    "heap s2 q' = Some qobj" "kind qobj = Proxy cfg"
    "map_of (own_props s2 cfg) ''__duktape_apply'' = Some (VObject f)"
    "heap s2 f = Some fobj" "kind fobj = CFunction Fn_duktape_apply"
    "duktape_apply (apply_frame cfg VUndefined (rev (take n (stack s2))) s2) = (Inr DUK_RET_ERROR, s3)"
  shows "\<exists>m s4. call q args s = (Inr NullRef, s4) \<and> pending s4 = Some (DuktapeException m)
           \<and> stack s4 = drop (Suc n) (stack s2)"
  using assms
  by (simp add: call_def duk_pcall_def duk_pcall_with_def call_value_def proxy_apply_def
        call_cfunction_def pad_def call_frame_def apply_frame_def alloc_def new_object_def
        queueJavaExceptionForDuktapeError_def DUK_RET_ERROR_def ok_def throw_def eval_nat_numeral)

lemma ex_proxy_eq: "ex_proxy = after_proxy 1 ex_ctx"
proof -
  have o: "jobjects ex_ctx 1 = Some (plain_hostobj\<lparr>isDuktapeObject := True\<rparr>)"
          "native (plain_hostobj\<lparr>isDuktapeObject := True\<rparr>) = None"
          "\<not> (isJavaScriptObject (plain_hostobj\<lparr>isDuktapeObject := True\<rparr>)
              \<and> contextField (plain_hostobj\<lparr>isDuktapeObject := True\<rparr>) = this_context ex_ctx)"
          "isJavaScriptObject (plain_hostobj\<lparr>isDuktapeObject := True\<rparr>)
              \<or> isDuktapeObject (plain_hostobj\<lparr>isDuktapeObject := True\<rparr>)"
    by (simp_all add: ex_ctx_facts ex_objects_def plain_hostobj_def)
  show ?thesis unfolding ex_proxy_def pushObject_proxy[OF o factory_ex] by simp
qed

lemma ex_proxy_facts:
  "heap ex_proxy 3 = Some \<lparr>kind = Plain,
      props = [(JAVA_THIS_PROP_NAME, VPointer (PJRef (GlobalRef 0))),
               (''__duktape_get'', VObject 5), (''__duktape_apply'', VObject 6)],
      finalizer = VObject 4\<rparr>"
  "heap ex_proxy 5 = Some (new_object (CFunction Fn_duktape_get))"
  "heap ex_proxy 6 = Some (new_object (CFunction Fn_duktape_apply))"
  "heap ex_proxy 7 = Some (new_object (Proxy 3))"
  "heap ex_proxy 2 = Some (new_object MakeProxyFn)"
  "heap ex_proxy 0 = Some \<lparr>kind = Plain, props = [(''__makeProxy'', VObject 2)], finalizer = VUndefined\<rparr>"
  "heap ex_proxy (Suc 0) = Some \<lparr>kind = Plain,
      props = [(JAVA_VM_PROP_NAME, VPointer PJavaVM),
               (DUKTAPE_CONTEXT_PROP_NAME, VPointer (PContext 77))], finalizer = VUndefined\<rparr>"
  "stack ex_proxy = [VObject 7]" "next_addr ex_proxy = 8" "grefs ex_proxy 0 = Some (Suc 0)"
  "next_gref ex_proxy = Suc 0"
  "jobjects ex_proxy = ex_objects" "next_jobj ex_proxy = 5" "pending ex_proxy = None"
  "this_context ex_proxy = 77" "global_addr ex_proxy = 0" "stash_addr ex_proxy = Suc 0"
  "host_invoke ex_proxy = (\<lambda>x t a. if x = 1 then Inl (HostException ''boom'') else Inr NullRef)"
  "host_get ex_proxy = (\<lambda>x k. if k = ''m'' then Inr (LocalRef 1) else Inr NullRef)"
  by (simp_all add: ex_proxy_eq after_proxy_def ex_defs jni_defs prim_defs ok_def eval_nat_numeral)

lemmas call_defs = call_def callProperty_def push_args_def duk_pcall_def duk_pcall_prop_def duk_pcall_with_def
  call_value_def proxy_apply_def call_cfunction_def pad_def call_frame_def get_prop_value_def
  duk_normalize_index_def pushObject_ptr_def duktape_apply_def apply_unpack_def duk_get_length_def
  duk_get_prop_index_def popObject2_def queueJavaExceptionForDuktapeError_def error_message_def
  DUK_RET_ERROR_def

lemmas eval_defs = call_defs trap_defs pop_defs' duk_is_array_def proxy_target_def is_supported_scalar_def
  pushObject_def call_factory_def makeProxy_def as_jobject_def prim_defs jni_defs ok_def throw_def name_defs
  ex_objects_def plain_hostobj_def boxed_def JavaObject_def JavaScriptObject_def apply_frame_def Let_def

text \<open>
  C4. When the host's \<open>invoke\<close>, called by the apply trap with the unpacked arguments,
  raises a host exception, the trap returns the error code at once: the state is the one
  at the invocation plus the pending host exception, and no result is marshalled. A
  \<open>call\<close> or \<open>callProperty\<close> whose protected call fails returns null, consumes the error
  value and leaves one pending \<open>DuktapeException\<close>. In particular a \<open>call\<close> on a proxy
  whose apply trap returns the error code returns null with that exception pending.
\<close>

theorem host_exception_propagates:
  "(apply_unpack s = (Inr (javaArgs, javaThis, p), s1) \<and> as_jobject p = Some r
      \<and> deref s1 r = Some x \<and> jobjects s1 x = Some h \<and> isDuktapeObject h
      \<and> host_invoke s1 x javaThis javaArgs = Inl e
    \<longrightarrow> duktape_apply s = (Inr DUK_RET_ERROR, s1\<lparr>pending := Some e\<rparr>))
   \<and> (pushObject_ptr q t = (Inr (), t1) \<and> push_args args t1 = (Inr n, t2)
      \<and> duk_pcall n t2 = (Inr False, t3)
    \<longrightarrow> (\<exists>m. call q args t =
          (Inr NullRef, t3\<lparr>stack := drop (Suc n) (stack t2), pending := Some (DuktapeException m)\<rparr>)))
   \<and> (pushObject_ptr q u = (Inr (), u1) \<and> duk_normalize_index (-1) u1 = Some idx
      \<and> pushObject property u1 = (Inr (), u1') \<and> push_args args u1' = (Inr n, u2)
      \<and> duk_pcall_prop idx n u2 = (Inr False, u3) \<and> Suc n < length (stack u2)
    \<longrightarrow> (\<exists>m. callProperty q property args u =
          (Inr NullRef, u3\<lparr>stack := drop (Suc (Suc n)) (stack u2), pending := Some (DuktapeException m)\<rparr>)))
   \<and> (pushObject_ptr q v = (Inr (), v1) \<and> push_args args v1 = (Inr n, v2)
      \<and> n < length (stack v2) \<and> stack v2 ! n = VObject q'
      \<and> heap v2 q' = Some qobj \<and> kind qobj = Proxy cfg
      \<and> map_of (own_props v2 cfg) ''__duktape_apply'' = Some (VObject f)
      \<and> heap v2 f = Some fobj \<and> kind fobj = CFunction Fn_duktape_apply
      \<and> duktape_apply (apply_frame cfg VUndefined (rev (take n (stack v2))) v2) = (Inr DUK_RET_ERROR, v3)
    \<longrightarrow> (\<exists>m v4. call q args v = (Inr NullRef, v4) \<and> pending v4 = Some (DuktapeException m)
           \<and> stack v4 = drop (Suc n) (stack v2)))"
proof (intro conjI impI)
  assume "apply_unpack s = (Inr (javaArgs, javaThis, p), s1) \<and> as_jobject p = Some r
      \<and> deref s1 r = Some x \<and> jobjects s1 x = Some h \<and> isDuktapeObject h
      \<and> host_invoke s1 x javaThis javaArgs = Inl e"
  then show "duktape_apply s = (Inr DUK_RET_ERROR, s1\<lparr>pending := Some e\<rparr>)"
    by (auto intro: duktape_apply_host_raises)
next
  assume "pushObject_ptr q t = (Inr (), t1) \<and> push_args args t1 = (Inr n, t2)
      \<and> duk_pcall n t2 = (Inr False, t3)"
  then show "\<exists>m. call q args t =
          (Inr NullRef, t3\<lparr>stack := drop (Suc n) (stack t2), pending := Some (DuktapeException m)\<rparr>)"
    by (auto intro: call_failed)
next
  assume "pushObject_ptr q u = (Inr (), u1) \<and> duk_normalize_index (-1) u1 = Some idx
      \<and> pushObject property u1 = (Inr (), u1') \<and> push_args args u1' = (Inr n, u2)
      \<and> duk_pcall_prop idx n u2 = (Inr False, u3) \<and> Suc n < length (stack u2)"
  then show "\<exists>m. callProperty q property args u =
          (Inr NullRef, u3\<lparr>stack := drop (Suc (Suc n)) (stack u2), pending := Some (DuktapeException m)\<rparr>)"
    by (auto intro: callProperty_failed)
next
  assume "pushObject_ptr q v = (Inr (), v1) \<and> push_args args v1 = (Inr n, v2)
      \<and> n < length (stack v2) \<and> stack v2 ! n = VObject q'
      \<and> heap v2 q' = Some qobj \<and> kind qobj = Proxy cfg
      \<and> map_of (own_props v2 cfg) ''__duktape_apply'' = Some (VObject f)
      \<and> heap v2 f = Some fobj \<and> kind fobj = CFunction Fn_duktape_apply
      \<and> duktape_apply (apply_frame cfg VUndefined (rev (take n (stack v2))) v2) = (Inr DUK_RET_ERROR, v3)"
  then show "\<exists>m v4. call q args v = (Inr NullRef, v4) \<and> pending v4 = Some (DuktapeException m)
           \<and> stack v4 = drop (Suc n) (stack v2)"
    by (elim conjE) (rule call_on_proxy_failed)
qed

theorem host_exception_propagates_witness:
  "fst (duktape_apply (apply_frame 3 VUndefined [VString ''m'']
          (ex_proxy\<lparr>stack := [VString ''m'', VObject 7, VObject 7]\<rparr>))) = Inr DUK_RET_ERROR
   \<and> pending (snd (duktape_apply (apply_frame 3 VUndefined [VString ''m'']
          (ex_proxy\<lparr>stack := [VString ''m'', VObject 7, VObject 7]\<rparr>)))) = Some (HostException ''boom'')
   \<and> fst (call 7 (Some [LocalRef 4]) ex_proxy) = Inr NullRef
   \<and> stack (snd (call 7 (Some [LocalRef 4]) ex_proxy)) = [VObject 7]
   \<and> (\<exists>m. pending (snd (call 7 (Some [LocalRef 4]) ex_proxy)) = Some (DuktapeException m))
   \<and> fst (callProperty 7 (LocalRef 4) (Some [LocalRef 4]) ex_proxy) = Inr NullRef
   \<and> (\<exists>m. pending (snd (callProperty 7 (LocalRef 4) (Some [LocalRef 4]) ex_proxy))
          = Some (DuktapeException m))"
proof -
  let ?t1 = "ex_proxy\<lparr>stack := [VObject 7, VObject 7]\<rparr>"
  let ?t2 = "ex_proxy\<lparr>stack := [VString ''m'', VObject 7, VObject 7]\<rparr>"
  let ?u2 = "ex_proxy\<lparr>stack := [VString ''m'', VString ''m'', VObject 7, VObject 7]\<rparr>"
  let ?s = "apply_frame 3 VUndefined [VString ''m''] ?t2"
  let ?s1 = "snd (apply_unpack ?s)"
  let ?h = "plain_hostobj\<lparr>isDuktapeObject := True\<rparr>"
  let ?e = "HostException ''boom''"
  let ?t3 = "snd (duk_pcall 1 ?t2)"
  let ?u3 = "snd (duk_pcall_prop 1 1 ?u2)"
  have p1: "pushObject_ptr 7 ex_proxy = (Inr (), ?t1)"
    by (simp add: eval_defs ex_proxy_facts cong: andThen_weak_cong)
  have p2: "push_args (Some [LocalRef 4]) ?t1 = (Inr 1, ?t2)"
    by (simp add: eval_defs ex_proxy_facts cong: andThen_weak_cong)
  have p3: "pushObject (LocalRef 4) ?t1 = (Inr (), ?t2)"
    by (simp add: eval_defs ex_proxy_facts cong: andThen_weak_cong)
  have p4: "push_args (Some [LocalRef 4]) ?t2 = (Inr 1, ?u2)"
    by (simp add: eval_defs ex_proxy_facts cong: andThen_weak_cong)
  have p5: "duk_normalize_index (-1) ?t1 = Some 1"
    by (simp add: eval_defs)
  have a1: "apply_unpack ?s = (Inr ([LocalRef 5], NullRef, PJRef (GlobalRef 0)), ?s1)"
    by (simp add: prod_eq_iff eval_defs ex_proxy_facts cong: andThen_weak_cong)
  have a2: "deref ?s1 (GlobalRef 0) = Some 1 \<and> jobjects ?s1 1 = Some ?h
             \<and> host_invoke ?s1 1 NullRef [LocalRef 5] = Inl ?e"
    by (simp add: eval_defs ex_proxy_facts cong: andThen_weak_cong)
  have b: "duk_pcall 1 ?t2 = (Inr False, ?t3)"
    by (simp add: prod_eq_iff eval_defs ex_proxy_facts cong: andThen_weak_cong)
  have c: "duk_pcall_prop 1 1 ?u2 = (Inr False, ?u3)"
    by (simp add: prod_eq_iff eval_defs ex_proxy_facts cong: andThen_weak_cong)
  have d: "stack ?t2 ! 1 = VObject 7 \<and> heap ?t2 7 = Some (new_object (Proxy 3))
           \<and> map_of (own_props ?t2 3) ''__duktape_apply'' = Some (VObject 6)
           \<and> heap ?t2 6 = Some (new_object (CFunction Fn_duktape_apply))
           \<and> rev (take 1 (stack ?t2)) = [VString ''m'']"
    by (simp add: ex_proxy_facts prim_defs name_defs)
  note T = host_exception_propagates[where s = ?s and javaArgs = "[LocalRef 5]" and javaThis = NullRef
      and p = "PJRef (GlobalRef 0)" and ?s1.0 = ?s1 and r = "GlobalRef 0" and x = 1 and h = ?h and e = ?e
      and q = 7 and t = ex_proxy and ?t1.0 = ?t1 and args = "Some [LocalRef 4]" and n = 1
      and ?t2.0 = ?t2 and ?t3.0 = ?t3
      and u = ex_proxy and ?u1.0 = ?t1 and idx = 1 and property = "LocalRef 4" and u1' = ?t2
      and ?u2.0 = ?u2 and ?u3.0 = ?u3
      and v = ex_proxy and ?v1.0 = ?t1 and ?v2.0 = ?t2 and q' = 7 and qobj = "new_object (Proxy 3)"
      and cfg = 3 and f = 6 and fobj = "new_object (CFunction Fn_duktape_apply)"
      and ?v3.0 = "?s1\<lparr>pending := Some ?e\<rparr>"]
  have A: "duktape_apply ?s = (Inr DUK_RET_ERROR, ?s1\<lparr>pending := Some ?e\<rparr>)"
    using T a1 a2 by (simp add: as_jobject_def plain_hostobj_def)
  have B: "\<exists>m. call 7 (Some [LocalRef 4]) ex_proxy =
          (Inr NullRef, ?t3\<lparr>stack := drop (Suc 1) (stack ?t2), pending := Some (DuktapeException m)\<rparr>)"
    using T p1 p2 b by simp
  have C: "\<exists>m. callProperty 7 (LocalRef 4) (Some [LocalRef 4]) ex_proxy =
          (Inr NullRef, ?u3\<lparr>stack := drop (Suc (Suc 1)) (stack ?u2), pending := Some (DuktapeException m)\<rparr>)"
    using T p1 p5 p3 p4 c by simp
  have D: "\<exists>m v4. call 7 (Some [LocalRef 4]) ex_proxy = (Inr NullRef, v4)
          \<and> pending v4 = Some (DuktapeException m) \<and> stack v4 = drop (Suc 1) (stack ?t2)"
    using T p1 p2 d A by (simp add: new_object_def)
  from A B C D show ?thesis by auto
qed

subsection \<open>The finalizer\<close>

text \<open>
  C9. The finalizer deletes the method property from the object being finalized and
  leaves the hidden property holding the global reference in place. Run twice on the bound
  object of the example, it releases the same global reference twice and destroys the same
  method record twice. Run on the configuration object of the proxy of the example, whose
  own properties are the two trap functions, it releases the reference and then raises an
  engine error: the \<open>continue\<close> branch of the loop pops two of the three values above the
  enumerator, so the next \<open>duk_next\<close> is given the key instead of the enumerator.
\<close>

theorem finalizer_twice_releases_twice:
  "released (snd (finalize 3 (snd (finalize 3 ex_bound)))) = [GlobalRef 0, GlobalRef 0]
   \<and> destroyed (snd (finalize 3 (snd (finalize 3 ex_bound)))) = [0, 0]
   \<and> map_of (own_props (snd (finalize 3 ex_bound)) 3) JAVA_THIS_PROP_NAME
        = Some (VPointer (PJRef (GlobalRef 0)))
   \<and> fst (finalize 3 ex_proxy) = Inl (DukError ''object required'')
   \<and> released (snd (finalize 3 ex_proxy)) = [GlobalRef 0]"
proof -
  have bound: "released (snd (finalize 3 (snd (finalize 3 ex_bound)))) = [GlobalRef 0, GlobalRef 0]
   \<and> destroyed (snd (finalize 3 (snd (finalize 3 ex_bound)))) = [0, 0]
   \<and> map_of (own_props (snd (finalize 3 ex_bound)) 3) JAVA_THIS_PROP_NAME
        = Some (VPointer (PJRef (GlobalRef 0)))"
    by (simp add: finalize_def call_frame_def javaObjectFinalizer_def finalizer_loop.simps duk_enum_def
        duk_next_def delete_JavaMethod_def getJNIEnv_def as_jobject_def prop_value_def is_hidden_def
        ex_bound_def DuktapeContext_set_def ex_defs prim_defs jni_defs' ok_def throw_def
        name_defs deref_def delete_conv' cong: andThen_weak_cong)
  have proxy: "fst (finalize 3 ex_proxy) = Inl (DukError ''object required'')
   \<and> released (snd (finalize 3 ex_proxy)) = [GlobalRef 0]"
    by (simp add: finalize_def call_frame_def javaObjectFinalizer_def finalizer_loop.simps duk_enum_def
        duk_next_def delete_JavaMethod_def getJNIEnv_def as_jobject_def prop_value_def is_hidden_def
        ex_proxy_def pushObject_def duk_pcall_with_def call_factory_def makeProxy_def
        ex_defs prim_defs jni_defs' ok_def throw_def
        name_defs deref_def delete_conv' cong: andThen_weak_cong)
  from bound proxy show ?thesis by blast
qed

subsection \<open>Null references\<close>

lemma andThen_assoc: "andThen (andThen m f) g = andThen m (\<lambda>a s. andThen (f a s) g)"
  by (cases m) (auto simp: andThen_def split: sum.splits)

lemma push_each_append:
  "push_each (xs @ ys) s = andThen (push_each xs s) (\<lambda>_ s. push_each ys s)"
proof (induction xs arbitrary: s)
  case Nil
  show ?case by (simp add: ok_def)
next
  case (Cons a xs)
  have "push_each (xs @ ys) = (\<lambda>s. andThen (push_each xs s) (\<lambda>_ s. push_each ys s))"
    by (rule ext) (rule Cons.IH)
  then show ?case by (simp add: andThen_assoc)
qed

lemma push_each_nulls:
  "push_each (replicate n NullRef) s = (Inr (), s\<lparr>stack := replicate n VNull @ stack s\<rparr>)"
proof (induction n arbitrary: s)
  case 0
  show ?case by (simp add: ok_def)
next
  case (Suc n)
  show ?case
    by (simp add: Suc pushObject_def duk_push_null_def duk_push_def ok_def replicate_app_Cons_same)
qed

lemma setGlobalProperty_null_string:
  assumes "jobjects s x = Some h" "native h = Some (VString k)"
    "heap s (global_addr s) = Some gobj" "is_ordinary (kind gobj)"
  shows "setGlobalProperty (LocalRef x) NullRef s =
           (Inr (), s\<lparr>heap := (heap s)(global_addr s \<mapsto> gobj\<lparr>props := AList.update k VNull (props gobj)\<rparr>)\<rparr>)"
  using assms
  by (simp add: setGlobalProperty_def duk_put_prop_def to_property_key_def pushObject_def
        prim_defs' jni_defs ok_def)

text \<open>
  C10. Pushing a null host reference pushes the engine's null value: exactly one slot is
  added to the stack, nothing is allocated in either heap, no reference is created and
  no exception is left pending; the call returns normally. So a null element of the
  argument array of \<open>call\<close> and \<open>callProperty\<close> puts the null value on the stack, above
  what the elements before it pushed and below what the elements after it push; with
  \<open>n\<close> null arguments the protected call runs on \<open>n\<close> null values above the callee.
  \<open>setGlobalProperty\<close> with a null value writes the null value: under a string key
  the global object gets that property with the value null and the stack is as before.
\<close>

theorem pushObject_null:
  "pushObject NullRef s = (Inr (), s\<lparr>stack := VNull # stack s\<rparr>)
   \<and> push_args (Some (pre @ NullRef # post)) s =
       andThen (push_args (Some pre) s) (\<lambda>_ s1.
       andThen (push_args (Some post) (s1\<lparr>stack := VNull # stack s1\<rparr>)) (\<lambda>_ s2.
         ok (Suc (length pre + length post)) s2))
   \<and> call q (Some (replicate n NullRef)) s =
       andThen (pushObject_ptr q s) (\<lambda>_ s1.
       andThen (duk_pcall n (s1\<lparr>stack := replicate n VNull @ stack s1\<rparr>)) (\<lambda>success s2.
         if \<not> success
         then andThen (queueJavaExceptionForDuktapeError s2) (\<lambda>_ s3. ok NullRef s3)
         else popObject s2))
   \<and> callProperty q property (Some (replicate n NullRef)) s =
       andThen (pushObject_ptr q s) (\<lambda>_ s1.
       case duk_normalize_index (-1) s1 of
         None \<Rightarrow> throw (DukError ''invalid stack index'') s1
       | Some objectIndex \<Rightarrow>
           andThen (pushObject property s1) (\<lambda>_ s2.
           andThen (duk_pcall_prop objectIndex n (s2\<lparr>stack := replicate n VNull @ stack s2\<rparr>))
             (\<lambda>success s3.
               if \<not> success
               then andThen (queueJavaExceptionForDuktapeError s3) (\<lambda>_ s4.
                    andThen (duk_pop s4) (\<lambda>_ s5. ok NullRef s5))
               else popObject2 s3)))
   \<and> setGlobalProperty property NullRef s =
       andThen (duk_push_global_object s) (\<lambda>_ s1.
       andThen (pushObject property s1) (\<lambda>_ s2.
       andThen (duk_put_prop (-3) (s2\<lparr>stack := VNull # stack s2\<rparr>)) (\<lambda>_ s3. duk_pop s3)))
   \<and> (jobjects s x = Some h \<and> native h = Some (VString k)
        \<and> heap s (global_addr s) = Some gobj \<and> is_ordinary (kind gobj) \<longrightarrow>
       setGlobalProperty (LocalRef x) NullRef s =
         (Inr (), s\<lparr>heap := (heap s)(global_addr s \<mapsto>
                    gobj\<lparr>props := AList.update k VNull (props gobj)\<rparr>)\<rparr>))"
proof (intro conjI impI)
  show n: "pushObject NullRef s = (Inr (), s\<lparr>stack := VNull # stack s\<rparr>)" for s
    by (simp add: pushObject_def duk_push_null_def duk_push_def ok_def)
  show "push_args (Some (pre @ NullRef # post)) s =
       andThen (push_args (Some pre) s) (\<lambda>_ s1.
       andThen (push_args (Some post) (s1\<lparr>stack := VNull # stack s1\<rparr>)) (\<lambda>_ s2.
         ok (Suc (length pre + length post)) s2))"
    by (simp add: push_args_def push_each_append andThen_assoc andThen_ok n)
  show "call q (Some (replicate n NullRef)) s =
       andThen (pushObject_ptr q s) (\<lambda>_ s1.
       andThen (duk_pcall n (s1\<lparr>stack := replicate n VNull @ stack s1\<rparr>)) (\<lambda>success s2.
         if \<not> success
         then andThen (queueJavaExceptionForDuktapeError s2) (\<lambda>_ s3. ok NullRef s3)
         else popObject s2))"
    by (simp add: call_def push_args_def push_each_nulls andThen_ok)
  show "callProperty q property (Some (replicate n NullRef)) s =
       andThen (pushObject_ptr q s) (\<lambda>_ s1.
       case duk_normalize_index (-1) s1 of
         None \<Rightarrow> throw (DukError ''invalid stack index'') s1
       | Some objectIndex \<Rightarrow>
           andThen (pushObject property s1) (\<lambda>_ s2.
           andThen (duk_pcall_prop objectIndex n (s2\<lparr>stack := replicate n VNull @ stack s2\<rparr>))
             (\<lambda>success s3.
               if \<not> success
               then andThen (queueJavaExceptionForDuktapeError s3) (\<lambda>_ s4.
                    andThen (duk_pop s4) (\<lambda>_ s5. ok NullRef s5))
               else popObject2 s3)))"
    by (simp add: callProperty_def push_args_def push_each_nulls andThen_ok cong: option.case_cong)
  show "setGlobalProperty property NullRef s =
       andThen (duk_push_global_object s) (\<lambda>_ s1.
       andThen (pushObject property s1) (\<lambda>_ s2.
       andThen (duk_put_prop (-3) (s2\<lparr>stack := VNull # stack s2\<rparr>)) (\<lambda>_ s3. duk_pop s3)))"
    by (simp add: setGlobalProperty_def n)
next
  assume "jobjects s x = Some h \<and> native h = Some (VString k)
        \<and> heap s (global_addr s) = Some gobj \<and> is_ordinary (kind gobj)"
  then show "setGlobalProperty (LocalRef x) NullRef s =
         (Inr (), s\<lparr>heap := (heap s)(global_addr s \<mapsto>
                    gobj\<lparr>props := AList.update k VNull (props gobj)\<rparr>)\<rparr>)"
    by (auto intro: setGlobalProperty_null_string)
qed

text \<open>
  In the example, the boxed string 4 is the key \<open>m\<close>: \<open>setGlobalProperty\<close> with a null
  value leaves the global \<open>m\<close> with the value null. A \<open>call\<close> of the proxy with one null
  argument runs the apply trap on an argument array (engine object 8) that holds the
  null value.
\<close>

theorem pushObject_null_witness:
  "map_of (own_props (snd (setGlobalProperty (LocalRef 4) NullRef ex_ctx)) 0) ''m'' = Some VNull
   \<and> fst (setGlobalProperty (LocalRef 4) NullRef ex_ctx) = Inr ()
   \<and> stack (snd (setGlobalProperty (LocalRef 4) NullRef ex_ctx)) = []
   \<and> heap (snd (call 7 (Some [NullRef]) ex_proxy)) 8 = Some (new_object (Array [VNull]))"
proof -
  let ?g = "\<lparr>kind = Plain, props = [(''__makeProxy'', VObject 2)], finalizer = VUndefined\<rparr>"
  have h: "jobjects ex_ctx 4 = Some (boxed (VString ''m'')) \<and> native (boxed (VString ''m'')) = Some (VString ''m'')
        \<and> heap ex_ctx (global_addr ex_ctx) = Some ?g \<and> is_ordinary (kind ?g)"
    by (simp add: ex_defs jni_defs prim_defs ok_def is_ordinary_def)
  note T = pushObject_null[where s = ex_ctx and x = 4 and h = "boxed (VString ''m'')" and k = "''m''"
             and gobj = ?g and pre = "[]" and post = "[]" and q = 7 and n = 1 and property = NullRef]
  have 1: "setGlobalProperty (LocalRef 4) NullRef ex_ctx =
         (Inr (), ex_ctx\<lparr>heap := (heap ex_ctx)(global_addr ex_ctx \<mapsto>
                    ?g\<lparr>props := AList.update ''m'' VNull (props ?g)\<rparr>)\<rparr>)"
    using T h by simp
  note U = pushObject_null[where s = ex_proxy and x = 4 and h = "boxed (VString ''m'')" and k = "''m''"
             and gobj = ?g and pre = "[]" and post = "[]" and q = 7 and n = 1 and property = NullRef]
  have 2: "call 7 (Some [NullRef]) ex_proxy =
       andThen (pushObject_ptr 7 ex_proxy) (\<lambda>_ s1.
       andThen (duk_pcall 1 (s1\<lparr>stack := [VNull] @ stack s1\<rparr>)) (\<lambda>success s2.
         if \<not> success
         then andThen (queueJavaExceptionForDuktapeError s2) (\<lambda>_ s3. ok NullRef s3)
         else popObject s2))"
    using U by simp
  have 3: "heap (snd (call 7 (Some [NullRef]) ex_proxy)) 8 = Some (new_object (Array [VNull]))"
    unfolding 2 by (simp add: eval_defs ex_proxy_facts cong: andThen_weak_cong)
  show ?thesis
    unfolding 1 using 3 by (simp add: ex_ctx_facts ex_defs prim_defs jni_defs ok_def)
qed

end
